theory Spec2Isabelle
  imports Complex_Main
begin

section \<open>Strings and the preprocessor\<close>

text \<open>
  A Python \<open>str\<close> is modelled as a \<open>string\<close>; each \<open>char\<close> stands for the code point
  of the same number, so the model covers the strings whose code points are below 256.
  \<open>isspace\<close> is \<open>str.isspace\<close> on those code points: the characters that
  \<open>str.strip()\<close> removes.
\<close>

definition isspace :: "char \<Rightarrow> bool" where
  "isspace c =
     (let n = (of_char c :: nat)
      in (9 \<le> n \<and> n \<le> 13) \<or> (28 \<le> n \<and> n \<le> 32) \<or> n = 133 \<or> n = 160)"

text \<open>\<open>s.replace(c, new)\<close> for a pattern of one character.\<close>

definition str_replace :: "char \<Rightarrow> string \<Rightarrow> string \<Rightarrow> string" where
  "str_replace c new s = concat (map (\<lambda>x. if x = c then new else [x]) s)"

text \<open>\<open>s.strip()\<close>: whitespace is dropped at both ends.\<close>

definition strip :: "string \<Rightarrow> string" where
  "strip s = rev (dropWhile isspace (rev (dropWhile isspace s)))"

text \<open>\<open>preprocess_expression\<close>, line 96: \<open>expression.replace("^", "**").strip()\<close>.\<close>

definition preprocess_expression :: "string \<Rightarrow> string" where
  "preprocess_expression expression = strip (str_replace (CHR ''^'') ''**'' expression)"

section \<open>Syntax trees and values\<close>

text \<open>
  The operator classes of Python's \<open>ast\<close> module. \<open>PowOp\<close> is \<open>ast.Pow\<close> and
  \<open>NotOp\<close> is \<open>ast.Not\<close>.
\<close>

datatype operator =
  Add | Sub | Mult | MatMult | Div | Mod | PowOp
  | LShift | RShift | BitOr | BitXor | BitAnd | FloorDiv

datatype unaryop = Invert | NotOp | UAdd | USub

fun operator_name :: "operator \<Rightarrow> string" where
  "operator_name Add = ''Add''"
| "operator_name Sub = ''Sub''"
| "operator_name Mult = ''Mult''"
| "operator_name MatMult = ''MatMult''"
| "operator_name Div = ''Div''"
| "operator_name Mod = ''Mod''"
| "operator_name PowOp = ''Pow''"
| "operator_name LShift = ''LShift''"
| "operator_name RShift = ''RShift''"
| "operator_name BitOr = ''BitOr''"
| "operator_name BitXor = ''BitXor''"
| "operator_name BitAnd = ''BitAnd''"
| "operator_name FloorDiv = ''FloorDiv''"

fun unaryop_name :: "unaryop \<Rightarrow> string" where
  "unaryop_name Invert = ''Invert''"
| "unaryop_name NotOp = ''Not''"
| "unaryop_name UAdd = ''UAdd''"
| "unaryop_name USub = ''USub''"

text \<open>
  The value of an \<open>ast.Constant\<close>. The type \<open>'f\<close> is the interpreter's \<open>float\<close>;
  a complex constant is a pair of floats.
\<close>

datatype 'f const_val =
  CInt int | CFloat 'f | CComplex 'f 'f | CStr string | CBytes string
  | CBool bool | CNone | CEllipsis

text \<open>
  A node of the tree. The classes the evaluator has a visitor for have a constructor of
  their own (a \<open>Name\<close> with its identifier, a \<open>Call\<close> with the called node and the
  arguments); \<open>Other cls children\<close> is a node of any other class, with the name of
  the class and its child nodes in field order. The operator of a \<open>BinOp\<close> or a
  \<open>UnaryOp\<close> is one of the operator classes of the module.
\<close>

datatype 'f node =
  Expression "'f node"
  | BinOp "'f node" operator "'f node"
  | UnaryOp unaryop "'f node"
  | Constant "'f const_val"
  | Name string
  | Call "'f node" "'f node list"
  | Other string "'f node list"

text \<open>
  What a visitor returns: a Python \<open>int\<close>, \<open>bool\<close>, \<open>float\<close> or \<open>complex\<close>, or
  \<open>None\<close> (the result of \<open>NodeVisitor.generic_visit\<close>).
\<close>

datatype 'f val = VInt int | VBool bool | VFloat 'f | VComplex 'f 'f | VNone

text \<open>The exceptions that the functions of the \<open>operator\<close> module raise on these values.\<close>

datatype py_exception = ZeroDivisionError | OverflowError | TypeError

text \<open>
  The texts of the \<open>ValueError\<close>s the program raises, in the order of the source:
  the syntax error of line 105 (its text ends with the parser's own message, which the
  model does not keep), division by zero (line 40), the binary operation that is not
  allowed (line 41, with the operator's class name), the unary one (line 48), the
  literal that is not a number (line 53), the name (line 61), the call (line 64) and
  the construct that is not allowed (line 86, with the node's class name).
\<close>

datatype message =
  SyntaxMsg
  | DivisionByZero
  | BadBinaryOp string
  | BadUnaryOp string
  | OnlyNumericLiterals
  | NamesNotAllowed
  | CallsNotAllowed
  | BadConstruct string

text \<open>
  How a call of the evaluator fails: with one of its own \<open>ValueError\<close>s, or with an
  exception of an operator that nothing catches.
\<close>

datatype error = ValueError message | Uncaught py_exception

section \<open>Arithmetic of the interpreter\<close>

text \<open>
  Integers are exact. The floating-point arithmetic of the interpreter is a parameter:
  a record of its operations on the type \<open>'f\<close>. \<open>float_of_decimal m e\<close> is the float
  of the literal with digits \<open>m\<close> and decimal exponent \<open>e\<close>; \<open>float_of_int\<close> and
  \<open>int_true_divide\<close> are \<open>None\<close> where the interpreter raises \<open>OverflowError\<close>;
  \<open>float_div\<close>, \<open>float_floor_div\<close> and \<open>float_rem\<close> are called with a divisor that is
  not zero; \<open>float_pow\<close> and \<open>complex_arith\<close> return the exception they raise.
\<close>

record 'f platform =
  float_of_decimal :: "nat \<Rightarrow> int \<Rightarrow> 'f"
  float_of_int :: "int \<Rightarrow> 'f option"
  int_true_divide :: "int \<Rightarrow> int \<Rightarrow> 'f option"
  float_is_zero :: "'f \<Rightarrow> bool"
  float_neg :: "'f \<Rightarrow> 'f"
  float_add :: "'f \<Rightarrow> 'f \<Rightarrow> 'f"
  float_sub :: "'f \<Rightarrow> 'f \<Rightarrow> 'f"
  float_mul :: "'f \<Rightarrow> 'f \<Rightarrow> 'f"
  float_div :: "'f \<Rightarrow> 'f \<Rightarrow> 'f"
  float_floor_div :: "'f \<Rightarrow> 'f \<Rightarrow> 'f"
  float_rem :: "'f \<Rightarrow> 'f \<Rightarrow> 'f"
  float_pow :: "'f \<Rightarrow> 'f \<Rightarrow> py_exception + 'f val"
  complex_neg :: "'f \<times> 'f \<Rightarrow> 'f \<times> 'f"
  complex_arith :: "operator \<Rightarrow> 'f \<times> 'f \<Rightarrow> 'f \<times> 'f \<Rightarrow> py_exception + 'f \<times> 'f"

text \<open>\<open>bool\<close> is a subclass of \<open>int\<close>: \<open>True\<close> counts as 1 and \<open>False\<close> as 0.\<close>

fun as_int :: "'f val \<Rightarrow> int option" where
  "as_int (VInt i) = Some i"
| "as_int (VBool b) = Some (if b then 1 else 0)"
| "as_int (VFloat x) = None"
| "as_int (VComplex re im) = None"
| "as_int VNone = None"

definition both_int :: "'f val \<Rightarrow> 'f val \<Rightarrow> (int \<times> int) option" where
  "both_int l r =
     (case as_int l of
        None \<Rightarrow> None
      | Some a \<Rightarrow> (case as_int r of None \<Rightarrow> None | Some b \<Rightarrow> Some (a, b)))"

fun is_complex :: "'f val \<Rightarrow> bool" where
  "is_complex (VComplex re im) = True"
| "is_complex (VInt i) = False"
| "is_complex (VBool b) = False"
| "is_complex (VFloat x) = False"
| "is_complex VNone = False"

fun is_none :: "'f val \<Rightarrow> bool" where
  "is_none VNone = True"
| "is_none (VInt i) = False"
| "is_none (VBool b) = False"
| "is_none (VFloat x) = False"
| "is_none (VComplex re im) = False"

text \<open>The conversion of an operand of a float operation to a float.\<close>

fun to_float :: "'f platform \<Rightarrow> 'f val \<Rightarrow> py_exception + 'f" where
  "to_float P (VFloat x) = Inr x"
| "to_float P (VInt i) =
     (case float_of_int P i of None \<Rightarrow> Inl OverflowError | Some x \<Rightarrow> Inr x)"
| "to_float P (VBool b) =
     (case float_of_int P (if b then 1 else 0) of
        None \<Rightarrow> Inl OverflowError
      | Some x \<Rightarrow> Inr x)"
| "to_float P (VComplex re im) = Inl TypeError"
| "to_float P VNone = Inl TypeError"

text \<open>Both operands as floats, the left one converted first.\<close>

definition float_pair :: "'f platform \<Rightarrow> 'f val \<Rightarrow> 'f val \<Rightarrow> py_exception + 'f \<times> 'f" where
  "float_pair P l r =
     (if is_none l \<or> is_none r then Inl TypeError
      else case to_float P l of
        Inl e \<Rightarrow> Inl e
      | Inr x \<Rightarrow> (case to_float P r of Inl e \<Rightarrow> Inl e | Inr y \<Rightarrow> Inr (x, y)))"

text \<open>The conversion of an operand of a complex operation to a complex number.\<close>

fun to_complex :: "'f platform \<Rightarrow> 'f val \<Rightarrow> py_exception + 'f \<times> 'f" where
  "to_complex P (VComplex re im) = Inr (re, im)"
| "to_complex P VNone = Inl TypeError"
| "to_complex P v =
     (case to_float P v of
        Inl e \<Rightarrow> Inl e
      | Inr x \<Rightarrow> (case float_of_int P 0 of None \<Rightarrow> Inl OverflowError | Some z \<Rightarrow> Inr (x, z)))"

definition complex_op ::
  "'f platform \<Rightarrow> operator \<Rightarrow> 'f val \<Rightarrow> 'f val \<Rightarrow> py_exception + 'f val" where
  "complex_op P op l r =
     (if is_none l \<or> is_none r then Inl TypeError
      else case to_complex P l of
        Inl e \<Rightarrow> Inl e
      | Inr z \<Rightarrow>
          (case to_complex P r of
             Inl e \<Rightarrow> Inl e
           | Inr w \<Rightarrow>
               (case complex_arith P op z w of
                  Inl e \<Rightarrow> Inl e
                | Inr (re, im) \<Rightarrow> Inr (VComplex re im))))"

text \<open>
  The functions of the \<open>operator\<close> module that the two tables name. Two \<open>int\<close>s
  (or \<open>bool\<close>s) are handled by integer arithmetic; otherwise a complex operand makes
  the operation complex, and any other pair is converted to floats. \<open>None\<close> supports
  no arithmetic.
\<close>

definition op_add :: "'f platform \<Rightarrow> 'f val \<Rightarrow> 'f val \<Rightarrow> py_exception + 'f val" where
  "op_add P l r =
     (case both_int l r of
        Some (a, b) \<Rightarrow> Inr (VInt (a + b))
      | None \<Rightarrow>
          if is_complex l \<or> is_complex r then complex_op P Add l r
          else (case float_pair P l r of
                  Inl e \<Rightarrow> Inl e
                | Inr (x, y) \<Rightarrow> Inr (VFloat (float_add P x y))))"

definition op_sub :: "'f platform \<Rightarrow> 'f val \<Rightarrow> 'f val \<Rightarrow> py_exception + 'f val" where
  "op_sub P l r =
     (case both_int l r of
        Some (a, b) \<Rightarrow> Inr (VInt (a - b))
      | None \<Rightarrow>
          if is_complex l \<or> is_complex r then complex_op P Sub l r
          else (case float_pair P l r of
                  Inl e \<Rightarrow> Inl e
                | Inr (x, y) \<Rightarrow> Inr (VFloat (float_sub P x y))))"

definition op_mul :: "'f platform \<Rightarrow> 'f val \<Rightarrow> 'f val \<Rightarrow> py_exception + 'f val" where
  "op_mul P l r =
     (case both_int l r of
        Some (a, b) \<Rightarrow> Inr (VInt (a * b))
      | None \<Rightarrow>
          if is_complex l \<or> is_complex r then complex_op P Mult l r
          else (case float_pair P l r of
                  Inl e \<Rightarrow> Inl e
                | Inr (x, y) \<Rightarrow> Inr (VFloat (float_mul P x y))))"

text \<open>
  \<open>operator.truediv\<close>: the quotient of two integers is a float (or does not fit one);
  a float is divided after both operands are converted, and then a zero divisor raises.
\<close>

definition op_truediv :: "'f platform \<Rightarrow> 'f val \<Rightarrow> 'f val \<Rightarrow> py_exception + 'f val" where
  "op_truediv P l r =
     (case both_int l r of
        Some (a, b) \<Rightarrow>
          if b = 0 then Inl ZeroDivisionError
          else (case int_true_divide P a b of
                  None \<Rightarrow> Inl OverflowError
                | Some q \<Rightarrow> Inr (VFloat q))
      | None \<Rightarrow>
          if is_complex l \<or> is_complex r then complex_op P Div l r
          else (case float_pair P l r of
                  Inl e \<Rightarrow> Inl e
                | Inr (x, y) \<Rightarrow>
                    if float_is_zero P y then Inl ZeroDivisionError
                    else Inr (VFloat (float_div P x y))))"

text \<open>
  \<open>operator.floordiv\<close> and \<open>operator.mod\<close>: on integers, \<open>div\<close> and \<open>mod\<close> of
  \<open>int\<close> round toward minus infinity and give the remainder the sign of the divisor,
  as Python does. A complex operand is a \<open>TypeError\<close>, before any conversion.
\<close>

definition op_floordiv :: "'f platform \<Rightarrow> 'f val \<Rightarrow> 'f val \<Rightarrow> py_exception + 'f val" where
  "op_floordiv P l r =
     (case both_int l r of
        Some (a, b) \<Rightarrow> if b = 0 then Inl ZeroDivisionError else Inr (VInt (a div b))
      | None \<Rightarrow>
          if is_complex l \<or> is_complex r then Inl TypeError
          else (case float_pair P l r of
                  Inl e \<Rightarrow> Inl e
                | Inr (x, y) \<Rightarrow>
                    if float_is_zero P y then Inl ZeroDivisionError
                    else Inr (VFloat (float_floor_div P x y))))"

definition op_mod :: "'f platform \<Rightarrow> 'f val \<Rightarrow> 'f val \<Rightarrow> py_exception + 'f val" where
  "op_mod P l r =
     (case both_int l r of
        Some (a, b) \<Rightarrow> if b = 0 then Inl ZeroDivisionError else Inr (VInt (a mod b))
      | None \<Rightarrow>
          if is_complex l \<or> is_complex r then Inl TypeError
          else (case float_pair P l r of
                  Inl e \<Rightarrow> Inl e
                | Inr (x, y) \<Rightarrow>
                    if float_is_zero P y then Inl ZeroDivisionError
                    else Inr (VFloat (float_rem P x y))))"

text \<open>
  \<open>operator.pow\<close>: an integer to a non-negative integer is an integer. An integer to
  a negative integer is computed on floats: both are converted, and then a zero base
  raises \<open>ZeroDivisionError\<close>.
\<close>

definition op_pow :: "'f platform \<Rightarrow> 'f val \<Rightarrow> 'f val \<Rightarrow> py_exception + 'f val" where
  "op_pow P l r =
     (case both_int l r of
        Some (a, b) \<Rightarrow>
          if 0 \<le> b then Inr (VInt (a ^ nat b))
          else (case float_pair P (VInt a) (VInt b) of
                  Inl e \<Rightarrow> Inl e
                | Inr (x, y) \<Rightarrow> if a = 0 then Inl ZeroDivisionError else float_pow P x y)
      | None \<Rightarrow>
          if is_complex l \<or> is_complex r then complex_op P PowOp l r
          else (case float_pair P l r of
                  Inl e \<Rightarrow> Inl e
                | Inr (x, y) \<Rightarrow> float_pow P x y))"

text \<open>\<open>operator.pos\<close> and \<open>operator.neg\<close>.\<close>

fun op_pos :: "'f platform \<Rightarrow> 'f val \<Rightarrow> py_exception + 'f val" where
  "op_pos P (VInt i) = Inr (VInt i)"
| "op_pos P (VBool b) = Inr (VInt (if b then 1 else 0))"
| "op_pos P (VFloat x) = Inr (VFloat x)"
| "op_pos P (VComplex re im) = Inr (VComplex re im)"
| "op_pos P VNone = Inl TypeError"

fun op_neg :: "'f platform \<Rightarrow> 'f val \<Rightarrow> py_exception + 'f val" where
  "op_neg P (VInt i) = Inr (VInt (- i))"
| "op_neg P (VBool b) = Inr (VInt (if b then - 1 else 0))"
| "op_neg P (VFloat x) = Inr (VFloat (float_neg P x))"
| "op_neg P (VComplex re im) =
     (case complex_neg P (re, im) of (re', im') \<Rightarrow> Inr (VComplex re' im'))"
| "op_neg P VNone = Inl TypeError"

section \<open>The evaluator\<close>

text \<open>The two tables of lines 10 to 23, as association lists.\<close>

definition BINARY_OPERATORS ::
  "(operator \<times> ('f platform \<Rightarrow> 'f val \<Rightarrow> 'f val \<Rightarrow> py_exception + 'f val)) list" where
  "BINARY_OPERATORS =
     [(Add, op_add), (Sub, op_sub), (Mult, op_mul), (Div, op_truediv),
      (FloorDiv, op_floordiv), (Mod, op_mod), (PowOp, op_pow)]"

definition UNARY_OPERATORS ::
  "(unaryop \<times> ('f platform \<Rightarrow> 'f val \<Rightarrow> py_exception + 'f val)) list" where
  "UNARY_OPERATORS = [(UAdd, op_pos), (USub, op_neg)]"

text \<open>
  \<open>visit_BinOp\<close> after both operands are evaluated (lines 35 to 41): the operator
  is looked up, its function is called, and a \<open>ZeroDivisionError\<close> of the call becomes
  the \<open>ValueError\<close> of line 40. Any other exception of the call is not caught.
\<close>

definition apply_BinOp :: "'f platform \<Rightarrow> operator \<Rightarrow> 'f val \<Rightarrow> 'f val \<Rightarrow> error + 'f val" where
  "apply_BinOp P operator_type left right =
     (case map_of BINARY_OPERATORS operator_type of
        Some f \<Rightarrow>
          (case f P left right of
             Inr v \<Rightarrow> Inr v
           | Inl ZeroDivisionError \<Rightarrow> Inl (ValueError DivisionByZero)
           | Inl OverflowError \<Rightarrow> Inl (Uncaught OverflowError)
           | Inl TypeError \<Rightarrow> Inl (Uncaught TypeError))
      | None \<Rightarrow> Inl (ValueError (BadBinaryOp (operator_name operator_type))))"

text \<open>
  \<open>visit_UnaryOp\<close> after the operand is evaluated (lines 45 to 48). Nothing is caught.
\<close>

definition apply_UnaryOp :: "'f platform \<Rightarrow> unaryop \<Rightarrow> 'f val \<Rightarrow> error + 'f val" where
  "apply_UnaryOp P operator_type operand =
     (case map_of UNARY_OPERATORS operator_type of
        Some f \<Rightarrow> (case f P operand of Inr v \<Rightarrow> Inr v | Inl x \<Rightarrow> Inl (Uncaught x))
      | None \<Rightarrow> Inl (ValueError (BadUnaryOp (unaryop_name operator_type))))"

text \<open>
  \<open>visit_Constant\<close> (lines 50 to 53): \<open>isinstance(node.value, (int, float))\<close> holds
  of an \<open>int\<close>, of a \<open>float\<close> and, \<open>bool\<close> being a subclass of \<open>int\<close>, of a \<open>bool\<close>.
\<close>

fun visit_Constant :: "'f const_val \<Rightarrow> error + 'f val" where
  "visit_Constant (CInt i) = Inr (VInt i)"
| "visit_Constant (CFloat x) = Inr (VFloat x)"
| "visit_Constant (CBool b) = Inr (VBool b)"
| "visit_Constant (CComplex re im) = Inl (ValueError OnlyNumericLiterals)"
| "visit_Constant (CStr s) = Inl (ValueError OnlyNumericLiterals)"
| "visit_Constant (CBytes s) = Inl (ValueError OnlyNumericLiterals)"
| "visit_Constant CNone = Inl (ValueError OnlyNumericLiterals)"
| "visit_Constant CEllipsis = Inl (ValueError OnlyNumericLiterals)"

text \<open>
  The tuple \<open>allowed_nodes\<close> of \<open>generic_visit\<close> (lines 67 to 84), as class names.
  \<open>ast.Num\<close> is the class \<open>Constant\<close> under its old name.
\<close>

definition allowed_nodes :: "string list" where
  "allowed_nodes =
     [''Expression'', ''BinOp'', ''UnaryOp'', ''Constant'', ''Num'', ''Load'',
      ''Add'', ''Sub'', ''Mult'', ''Div'', ''FloorDiv'', ''Mod'', ''Pow'',
      ''UAdd'', ''USub'', ''Expr'']"

text \<open>
  \<open>NodeVisitor.visit\<close> calls the method \<open>visit_\<close> followed by the class name, and
  \<open>generic_visit\<close> where there is none. \<open>visit_Expression\<close> (line 30), \<open>visit_BinOp\<close>
  (lines 33 and 34, left operand first), \<open>visit_UnaryOp\<close> (line 44), \<open>visit_Constant\<close>,
  \<open>visit_Name\<close> (line 61) and \<open>visit_Call\<close> (line 64) are the first six equations.
  \<open>generic_visit\<close> (lines 85 to 87) raises for a class outside \<open>allowed_nodes\<close>, and
  else \<open>NodeVisitor.generic_visit\<close> visits the child nodes in order and returns \<open>None\<close>.
  \<open>visit_Num\<close> (line 57) is never called: no node has the class name \<open>Num\<close>.
  The call stack of the interpreter is not modelled: \<open>visit\<close> recurses to any depth.
\<close>

fun visit :: "'f platform \<Rightarrow> 'f node \<Rightarrow> error + 'f val"
  and visit_fields :: "'f platform \<Rightarrow> 'f node list \<Rightarrow> error + 'f val" where
  "visit P (Expression body) = visit P body"
| "visit P (BinOp left operator_type right) =
     (case visit P left of
        Inl e \<Rightarrow> Inl e
      | Inr l \<Rightarrow>
          (case visit P right of
             Inl e \<Rightarrow> Inl e
           | Inr r \<Rightarrow> apply_BinOp P operator_type l r))"
| "visit P (UnaryOp operator_type operand) =
     (case visit P operand of
        Inl e \<Rightarrow> Inl e
      | Inr v \<Rightarrow> apply_UnaryOp P operator_type v)"
| "visit P (Constant c) = visit_Constant c"
| "visit P (Name ident) = Inl (ValueError NamesNotAllowed)"
| "visit P (Call func args) = Inl (ValueError CallsNotAllowed)"
| "visit P (Other cls children) =
     (if cls \<notin> set allowed_nodes then Inl (ValueError (BadConstruct cls))
      else visit_fields P children)"
| "visit_fields P [] = Inr VNone"
| "visit_fields P (child # rest) =
     (case visit P child of Inl e \<Rightarrow> Inl e | Inr v \<Rightarrow> visit_fields P rest)"

section \<open>The parser\<close>

text \<open>
  \<open>ast.parse\<close> is the parser of the interpreter, not code of the program. It is
  modelled on a fragment of Python's expression grammar: decimal integers, floats with
  a point or an exponent, names, \<open>True\<close>, \<open>False\<close>, \<open>None\<close>, plain string literals,
  the arithmetic and comparison operators, parentheses, calls with positional
  arguments and list displays. The tokens carry the names of the interpreter's
  tokenizer.
\<close>

datatype optok =
  PLUS | MINUS | STAR | DOUBLESTAR | SLASH | DOUBLESLASH | PERCENT
  | LPAR | RPAR | LSQB | RSQB | COMMA
  | LESS | GREATER | LESSEQUAL | GREATEREQUAL | EQEQUAL | NOTEQUAL

datatype 'f token = NUMBER "'f const_val" | NAME string | STRING string | OP optok

definition is_digit :: "char \<Rightarrow> bool" where
  "is_digit c = (let n = (of_char c :: nat) in 48 \<le> n \<and> n \<le> 57)"

definition is_name_start :: "char \<Rightarrow> bool" where
  "is_name_start c =
     (let n = (of_char c :: nat) in (65 \<le> n \<and> n \<le> 90) \<or> (97 \<le> n \<and> n \<le> 122) \<or> n = 95)"

definition is_name_char :: "char \<Rightarrow> bool" where
  "is_name_char c = (is_name_start c \<or> is_digit c)"

definition digits_value :: "string \<Rightarrow> nat" where
  "digits_value ds = foldl (\<lambda>n c. 10 * n + (of_char c - 48)) 0 ds"

text \<open>The exponent of a float literal, if there is one; \<open>None\<close> for an \<open>e\<close> without digits.\<close>

definition lex_exponent :: "string \<Rightarrow> (int option \<times> string) option" where
  "lex_exponent s =
     (case s of
        [] \<Rightarrow> Some (None, s)
      | c # r \<Rightarrow>
          if c = CHR ''e'' \<or> c = CHR ''E'' then
            (let neg = (case r of [] \<Rightarrow> False | d # _ \<Rightarrow> d = CHR ''-'');
                 r' = (case r of [] \<Rightarrow> r | d # t \<Rightarrow> if d = CHR ''+'' \<or> d = CHR ''-'' then t else r);
                 ds = takeWhile is_digit r'
             in if ds = [] then None
                else Some (Some (if neg then - int (digits_value ds) else int (digits_value ds)),
                           dropWhile is_digit r'))
          else Some (None, s))"

text \<open>
  A number at the head of the input. An integer literal has no leading zero unless it
  is zero; a float literal with digits \<open>ip\<close> before the point, \<open>fp\<close> after it and
  exponent \<open>e\<close> is the decimal \<open>ip fp \<times> 10^(e - length fp)\<close>. \<open>None\<close> is a literal
  outside the fragment.
\<close>

definition lex_number :: "'f platform \<Rightarrow> string \<Rightarrow> ('f const_val \<times> string) option" where
  "lex_number P s =
     (let ip = takeWhile is_digit s; r1 = dropWhile is_digit s
      in case r1 of
           [] \<Rightarrow> (if 1 < length ip \<and> digits_value ip \<noteq> 0 \<and> hd ip = CHR ''0'' then None
                  else Some (CInt (int (digits_value ip)), []))
         | c # r2 \<Rightarrow>
             if c = CHR ''.'' then
               (let fp = takeWhile is_digit r2; r3 = dropWhile is_digit r2
                in if ip = [] \<and> fp = [] then None
                   else case lex_exponent r3 of
                          None \<Rightarrow> None
                        | Some (ex, r4) \<Rightarrow>
                            Some (CFloat (float_of_decimal P (digits_value (ip @ fp))
                                    ((case ex of None \<Rightarrow> 0 | Some e \<Rightarrow> e) - int (length fp))), r4))
             else
               (case lex_exponent r1 of
                  None \<Rightarrow> None
                | Some (Some e, r4) \<Rightarrow> Some (CFloat (float_of_decimal P (digits_value ip) e), r4)
                | Some (None, r4) \<Rightarrow>
                    if 1 < length ip \<and> digits_value ip \<noteq> 0 \<and> hd ip = CHR ''0'' then None
                    else Some (CInt (int (digits_value ip)), r4)))"

text \<open>The keywords of the language, but for \<open>True\<close>, \<open>False\<close> and \<open>None\<close>.\<close>

definition py_keywords :: "string list" where
  "py_keywords =
     [''and'', ''as'', ''assert'', ''async'', ''await'', ''break'', ''class'', ''continue'',
      ''def'', ''del'', ''elif'', ''else'', ''except'', ''finally'', ''for'', ''from'',
      ''global'', ''if'', ''import'', ''in'', ''is'', ''lambda'', ''nonlocal'', ''not'',
      ''or'', ''pass'', ''raise'', ''return'', ''try'', ''while'', ''with'', ''yield'']"

definition is_quote :: "char \<Rightarrow> bool" where
  "is_quote c = (c = CHR 0x27 \<or> c = CHR 0x22)"

definition plain_char :: "char \<Rightarrow> bool" where
  "plain_char c = (let n = (of_char c :: nat) in 32 \<le> n \<and> n \<le> 126 \<and> n \<noteq> 92)"

definition starts_with :: "(char \<Rightarrow> bool) \<Rightarrow> string \<Rightarrow> bool" where
  "starts_with p s = (case s of [] \<Rightarrow> False | c # _ \<Rightarrow> p c)"

text \<open>
  An operator or delimiter at the head of the input. The augmented assignments, the
  shifts, \<open>->\<close> and a lone \<open>=\<close> or \<open>!\<close> are outside the fragment.
\<close>

definition lex_operator :: "char \<Rightarrow> string \<Rightarrow> (optok \<times> string) option" where
  "lex_operator c cs =
     (let eq = starts_with (\<lambda>d. d = CHR ''='') cs in
      if c = CHR ''('' then Some (LPAR, cs)
      else if c = CHR '')'' then Some (RPAR, cs)
      else if c = CHR ''['' then Some (LSQB, cs)
      else if c = CHR '']'' then Some (RSQB, cs)
      else if c = CHR '','' then Some (COMMA, cs)
      else if c = CHR ''+'' then (if eq then None else Some (PLUS, cs))
      else if c = CHR ''-'' then
        (if eq \<or> starts_with (\<lambda>d. d = CHR ''>'') cs then None else Some (MINUS, cs))
      else if c = CHR ''%'' then (if eq then None else Some (PERCENT, cs))
      else if c = CHR ''*'' then
        (if starts_with (\<lambda>d. d = CHR ''*'') cs then
           (if starts_with (\<lambda>d. d = CHR ''='') (tl cs) then None else Some (DOUBLESTAR, tl cs))
         else if eq then None else Some (STAR, cs))
      else if c = CHR ''/'' then
        (if starts_with (\<lambda>d. d = CHR ''/'') cs then
           (if starts_with (\<lambda>d. d = CHR ''='') (tl cs) then None else Some (DOUBLESLASH, tl cs))
         else if eq then None else Some (SLASH, cs))
      else if c = CHR ''<'' then
        (if eq then Some (LESSEQUAL, tl cs)
         else if starts_with (\<lambda>d. d = CHR ''<'' \<or> d = CHR ''>'') cs then None
         else Some (LESS, cs))
      else if c = CHR ''>'' then
        (if eq then Some (GREATEREQUAL, tl cs)
         else if starts_with (\<lambda>d. d = CHR ''>'') cs then None
         else Some (GREATER, cs))
      else if c = CHR ''='' then (if eq then Some (EQEQUAL, tl cs) else None)
      else if c = CHR ''!'' then (if eq then Some (NOTEQUAL, tl cs) else None)
      else None)"

lemma length_dropWhile_diff_le: "length (dropWhile p xs) - n \<le> length xs"
  by (rule le_trans [OF diff_le_self length_dropWhile_le])

text \<open>
  The tokens of the input, or \<open>None\<close> when it leaves the fragment: a character that
  is not of the fragment (a line break, a comment, a backslash, a code point above
  126), a keyword, a number that runs into a name, a string with a prefix or an
  escape, a string that is not closed or that touches the next one. The tests on
  lengths always hold; they make the recursion well-founded.
\<close>

function tokenize :: "'f platform \<Rightarrow> string \<Rightarrow> 'f token list option" where
  "tokenize P [] = Some []"
| "tokenize P (c # cs) =
     (if c = CHR '' '' \<or> c = CHR 0x09 then tokenize P cs
      else if is_digit c \<or> (c = CHR ''.'' \<and> starts_with is_digit cs) then
        (case lex_number P (c # cs) of
           None \<Rightarrow> None
         | Some (k, rest) \<Rightarrow>
             if length rest \<le> length cs \<and> \<not> starts_with is_name_char rest
             then map_option ((#) (NUMBER k)) (tokenize P rest)
             else None)
      else if is_name_start c then
        (let ident = c # takeWhile is_name_char cs; rest = dropWhile is_name_char cs
         in if ident \<in> set py_keywords \<or> starts_with is_quote rest then None
            else map_option ((#) (NAME ident)) (tokenize P rest))
      else if is_quote c then
        (let body = takeWhile (\<lambda>d. d \<noteq> c) cs; rest = dropWhile (\<lambda>d. d \<noteq> c) cs
         in if rest = [] \<or> \<not> list_all plain_char body \<or> starts_with is_quote (tl rest) then None
            else map_option ((#) (STRING body)) (tokenize P (tl rest)))
      else
        (case lex_operator c cs of
           None \<Rightarrow> None
         | Some (t, rest) \<Rightarrow>
             if length rest \<le> length cs then map_option ((#) (OP t)) (tokenize P rest)
             else None))"
  by pat_completeness auto
termination
  by (relation "measure (\<lambda>(P, s). length s)")
     (auto simp: less_Suc_eq_le length_dropWhile_le length_dropWhile_diff_le)

text \<open>
  The result of a grammar rule: the value and the tokens left, a syntax error, or an
  input outside the fragment.
\<close>

datatype ('a, 'f) parse_result = Got 'a "'f token list" | Invalid | Unsupported

fun sum_operator :: "'f token \<Rightarrow> operator option" where
  "sum_operator (OP PLUS) = Some Add"
| "sum_operator (OP MINUS) = Some Sub"
| "sum_operator t = None"

fun term_operator :: "'f token \<Rightarrow> operator option" where
  "term_operator (OP STAR) = Some Mult"
| "term_operator (OP SLASH) = Some Div"
| "term_operator (OP DOUBLESLASH) = Some FloorDiv"
| "term_operator (OP PERCENT) = Some Mod"
| "term_operator t = None"

fun factor_operator :: "'f token \<Rightarrow> unaryop option" where
  "factor_operator (OP PLUS) = Some UAdd"
| "factor_operator (OP MINUS) = Some USub"
| "factor_operator t = None"

fun compare_operator :: "'f token \<Rightarrow> string option" where
  "compare_operator (OP LESS) = Some ''Lt''"
| "compare_operator (OP GREATER) = Some ''Gt''"
| "compare_operator (OP EQEQUAL) = Some ''Eq''"
| "compare_operator (OP NOTEQUAL) = Some ''NotEq''"
| "compare_operator (OP LESSEQUAL) = Some ''LtE''"
| "compare_operator (OP GREATEREQUAL) = Some ''GtE''"
| "compare_operator t = None"

fun is_op :: "optok \<Rightarrow> 'f token \<Rightarrow> bool" where
  "is_op k (OP k') = (k = k')"
| "is_op k t = False"

text \<open>Adjacent string literals are one constant.\<close>

fun string_run :: "'f token list \<Rightarrow> string \<times> 'f token list" where
  "string_run (STRING s # rest) = (case string_run rest of (s', rest') \<Rightarrow> (s @ s', rest'))"
| "string_run toks = ([], toks)"

lemma string_run_length: "length (snd (string_run toks)) \<le> length toks"
  by (induction toks rule: string_run.induct) (auto split: prod.splits)

text \<open>
  The rules of the grammar, by recursive descent:
  \<^verbatim>\<open>
  comparison: sum (compare_op sum)*
  sum:        term (('+' | '-') term)*
  term:       factor (('*' | '/' | '//' | '%') factor)*
  factor:     ('+' | '-') factor | power
  power:      primary ['**' factor]
  primary:    atom ('(' [elements] ')')*
  atom:       NUMBER | NAME | STRING+ | '(' comparison ')' | '[' [elements] ']'
  elements:   comparison (',' comparison)* [',']
  \<close>
  A chain of comparisons is one \<open>Compare\<close> node (fields \<open>left\<close>, \<open>ops\<close>,
  \<open>comparators\<close>), a list display is a \<open>List\<close> node (fields \<open>elts\<close>, \<open>ctx\<close>).
  Tuples, subscripts and starred elements are outside the fragment. The tests on
  lengths always hold; they make the recursion well-founded.
\<close>

function parse_elements :: "optok \<Rightarrow> 'f token list \<Rightarrow> ('f node list, 'f) parse_result"
  and parse_comparison :: "'f token list \<Rightarrow> ('f node, 'f) parse_result"
  and parse_comparison_rest ::
    "'f node \<Rightarrow> 'f node list \<Rightarrow> 'f node list \<Rightarrow> 'f token list \<Rightarrow> ('f node, 'f) parse_result"
  and parse_sum :: "'f token list \<Rightarrow> ('f node, 'f) parse_result"
  and parse_sum_rest :: "'f node \<Rightarrow> 'f token list \<Rightarrow> ('f node, 'f) parse_result"
  and parse_term :: "'f token list \<Rightarrow> ('f node, 'f) parse_result"
  and parse_term_rest :: "'f node \<Rightarrow> 'f token list \<Rightarrow> ('f node, 'f) parse_result"
  and parse_factor :: "'f token list \<Rightarrow> ('f node, 'f) parse_result"
  and parse_power :: "'f token list \<Rightarrow> ('f node, 'f) parse_result"
  and parse_primary :: "'f token list \<Rightarrow> ('f node, 'f) parse_result"
  and parse_trailers :: "'f node \<Rightarrow> 'f token list \<Rightarrow> ('f node, 'f) parse_result"
  and parse_atom :: "'f token list \<Rightarrow> ('f node, 'f) parse_result" where
  "parse_elements close toks =
     (case toks of
        [] \<Rightarrow> Invalid
      | t # rest \<Rightarrow>
          if is_op close t then Got [] rest
          else if is_op STAR t \<or> is_op DOUBLESTAR t then Unsupported
          else (case parse_comparison toks of
                  Invalid \<Rightarrow> Invalid
                | Unsupported \<Rightarrow> Unsupported
                | Got e rest' \<Rightarrow>
                    (case rest' of
                       [] \<Rightarrow> Invalid
                     | t' # rest'' \<Rightarrow>
                         if is_op close t' then Got [e] rest''
                         else if is_op COMMA t' then
                           (if length rest'' < length toks then
                              (case parse_elements close rest'' of
                                 Invalid \<Rightarrow> Invalid
                               | Unsupported \<Rightarrow> Unsupported
                               | Got es r \<Rightarrow> Got (e # es) r)
                            else Unsupported)
                         else Invalid)))"
| "parse_comparison toks =
     (case parse_sum toks of
        Invalid \<Rightarrow> Invalid
      | Unsupported \<Rightarrow> Unsupported
      | Got left rest \<Rightarrow>
          if length rest \<le> length toks then parse_comparison_rest left [] [] rest
          else Unsupported)"
| "parse_comparison_rest left ops comparators toks =
     (case toks of
        [] \<Rightarrow> Got (case ops of [] \<Rightarrow> left | _ # _ \<Rightarrow> Other ''Compare'' (left # ops @ comparators)) toks
      | t # rest \<Rightarrow>
          (case compare_operator t of
             None \<Rightarrow> Got (case ops of [] \<Rightarrow> left | _ # _ \<Rightarrow> Other ''Compare'' (left # ops @ comparators)) toks
           | Some cls \<Rightarrow>
               (case parse_sum rest of
                  Invalid \<Rightarrow> Invalid
                | Unsupported \<Rightarrow> Unsupported
                | Got right rest' \<Rightarrow>
                    if length rest' < length toks
                    then parse_comparison_rest left (ops @ [Other cls []]) (comparators @ [right]) rest'
                    else Unsupported)))"
| "parse_sum toks =
     (case parse_term toks of
        Invalid \<Rightarrow> Invalid
      | Unsupported \<Rightarrow> Unsupported
      | Got left rest \<Rightarrow>
          if length rest \<le> length toks then parse_sum_rest left rest else Unsupported)"
| "parse_sum_rest left toks =
     (case toks of
        [] \<Rightarrow> Got left toks
      | t # rest \<Rightarrow>
          (case sum_operator t of
             None \<Rightarrow> Got left toks
           | Some op \<Rightarrow>
               (case parse_term rest of
                  Invalid \<Rightarrow> Invalid
                | Unsupported \<Rightarrow> Unsupported
                | Got right rest' \<Rightarrow>
                    if length rest' < length toks then parse_sum_rest (BinOp left op right) rest'
                    else Unsupported)))"
| "parse_term toks =
     (case parse_factor toks of
        Invalid \<Rightarrow> Invalid
      | Unsupported \<Rightarrow> Unsupported
      | Got left rest \<Rightarrow>
          if length rest \<le> length toks then parse_term_rest left rest else Unsupported)"
| "parse_term_rest left toks =
     (case toks of
        [] \<Rightarrow> Got left toks
      | t # rest \<Rightarrow>
          (case term_operator t of
             None \<Rightarrow> Got left toks
           | Some op \<Rightarrow>
               (case parse_factor rest of
                  Invalid \<Rightarrow> Invalid
                | Unsupported \<Rightarrow> Unsupported
                | Got right rest' \<Rightarrow>
                    if length rest' < length toks then parse_term_rest (BinOp left op right) rest'
                    else Unsupported)))"
| "parse_factor toks =
     (case toks of
        [] \<Rightarrow> Invalid
      | t # rest \<Rightarrow>
          (case factor_operator t of
             Some op \<Rightarrow>
               (case parse_factor rest of
                  Invalid \<Rightarrow> Invalid
                | Unsupported \<Rightarrow> Unsupported
                | Got operand rest' \<Rightarrow> Got (UnaryOp op operand) rest')
           | None \<Rightarrow> parse_power toks))"
| "parse_power toks =
     (case parse_primary toks of
        Invalid \<Rightarrow> Invalid
      | Unsupported \<Rightarrow> Unsupported
      | Got base rest \<Rightarrow>
          (case rest of
             [] \<Rightarrow> Got base rest
           | t # rest' \<Rightarrow>
               if is_op DOUBLESTAR t \<and> length rest' < length toks then
                 (case parse_factor rest' of
                    Invalid \<Rightarrow> Invalid
                  | Unsupported \<Rightarrow> Unsupported
                  | Got exponent rest'' \<Rightarrow> Got (BinOp base PowOp exponent) rest'')
               else Got base rest))"
| "parse_primary toks =
     (case parse_atom toks of
        Invalid \<Rightarrow> Invalid
      | Unsupported \<Rightarrow> Unsupported
      | Got a rest \<Rightarrow>
          if length rest < length toks then parse_trailers a rest else Unsupported)"
| "parse_trailers func toks =
     (case toks of
        [] \<Rightarrow> Got func toks
      | t # rest \<Rightarrow>
          if is_op LSQB t then Unsupported
          else if is_op LPAR t then
            (case parse_elements RPAR rest of
               Invalid \<Rightarrow> Invalid
             | Unsupported \<Rightarrow> Unsupported
             | Got args rest' \<Rightarrow>
                 if length rest' < length toks then parse_trailers (Call func args) rest'
                 else Unsupported)
          else Got func toks)"
| "parse_atom toks =
     (case toks of
        [] \<Rightarrow> Invalid
      | NUMBER c # rest \<Rightarrow> Got (Constant c) rest
      | NAME ident # rest \<Rightarrow>
          Got (if ident = ''True'' then Constant (CBool True)
               else if ident = ''False'' then Constant (CBool False)
               else if ident = ''None'' then Constant CNone
               else Name ident) rest
      | STRING s # rest \<Rightarrow>
          (case string_run toks of (s', rest') \<Rightarrow> Got (Constant (CStr s')) rest')
      | OP k # rest \<Rightarrow>
          if k = LSQB then
            (case parse_elements RSQB rest of
               Invalid \<Rightarrow> Invalid
             | Unsupported \<Rightarrow> Unsupported
             | Got elts rest' \<Rightarrow> Got (Other ''List'' (elts @ [Other ''Load'' []])) rest')
          else if k = LPAR then
            (case rest of
               [] \<Rightarrow> Invalid
             | t # _ \<Rightarrow>
                 if is_op RPAR t \<or> is_op STAR t \<or> is_op DOUBLESTAR t then Unsupported
                 else (case parse_comparison rest of
                         Invalid \<Rightarrow> Invalid
                       | Unsupported \<Rightarrow> Unsupported
                       | Got e rest' \<Rightarrow>
                           (case rest' of
                              [] \<Rightarrow> Invalid
                            | t' # rest'' \<Rightarrow>
                                if is_op RPAR t' then Got e rest''
                                else if is_op COMMA t' then Unsupported
                                else Invalid)))
          else Invalid)"
  by pat_completeness auto
termination
  by (relation "measure (\<lambda>x. case x of
        Inl (Inl (Inl (close, toks))) \<Rightarrow> 12 * length toks + 11
      | Inl (Inl (Inr (Inl toks))) \<Rightarrow> 12 * length toks + 10
      | Inl (Inl (Inr (Inr (left, ops, comparators, toks)))) \<Rightarrow> 12 * length toks + 9
      | Inl (Inr (Inl toks)) \<Rightarrow> 12 * length toks + 8
      | Inl (Inr (Inr (Inl (left, toks)))) \<Rightarrow> 12 * length toks + 7
      | Inl (Inr (Inr (Inr toks))) \<Rightarrow> 12 * length toks + 6
      | Inr (Inl (Inl (left, toks))) \<Rightarrow> 12 * length toks + 5
      | Inr (Inl (Inr (Inl toks))) \<Rightarrow> 12 * length toks + 4
      | Inr (Inl (Inr (Inr toks))) \<Rightarrow> 12 * length toks + 3
      | Inr (Inr (Inl toks)) \<Rightarrow> 12 * length toks + 2
      | Inr (Inr (Inr (Inl (func, toks)))) \<Rightarrow> 12 * length toks + 1
      | Inr (Inr (Inr (Inr toks))) \<Rightarrow> 12 * length toks)")
     auto

text \<open>
  What \<open>ast.parse(source, mode="eval")\<close> does: it returns a tree, it raises
  \<open>SyntaxError\<close>, or the model does not say (\<open>NotModelled\<close>): the input is outside
  the fragment, or it has more than 1000 characters or 100 tokens, where the limits
  of the parser (on the nesting of brackets, on the digits of an integer) and of the
  interpreter's stack may decide.
\<close>

datatype 'f parse_outcome = Parsed "'f node" | SyntaxError | NotModelled

text \<open>
  The model of \<open>ast.parse\<close>. An input that starts with a blank is an
  \<open>IndentationError\<close>, which is a \<open>SyntaxError\<close>.
\<close>

definition ast_parse :: "'f platform \<Rightarrow> string \<Rightarrow> 'f parse_outcome" where
  "ast_parse P source =
     (case tokenize P source of
        None \<Rightarrow> NotModelled
      | Some toks \<Rightarrow>
          if 1000 < length source \<or> 100 < length toks then NotModelled
          else if starts_with (\<lambda>c. c = CHR '' '' \<or> c = CHR 0x09) source then SyntaxError
          else (case toks of
                  [] \<Rightarrow> SyntaxError
                | t # _ \<Rightarrow>
                    (case parse_comparison toks of
                       Unsupported \<Rightarrow> NotModelled
                     | Invalid \<Rightarrow> SyntaxError
                     | Got body rest \<Rightarrow>
                         (case rest of
                            [] \<Rightarrow> Parsed (Expression body)
                          | t' # _ \<Rightarrow> if is_op COMMA t' then NotModelled else SyntaxError))))"

section \<open>The entry point\<close>

text \<open>
  \<open>evaluate_expression\<close> (lines 99 to 107), with the parser as a parameter: the input
  is prepared, parsed, and the tree is visited; a \<open>SyntaxError\<close> of the parser becomes
  the \<open>ValueError\<close> of line 105. The result is \<open>None\<close> where the parser's outcome is
  not modelled.
\<close>

definition evaluate_expression ::
  "'f platform \<Rightarrow> (string \<Rightarrow> 'f parse_outcome) \<Rightarrow> string \<Rightarrow> (error + 'f val) option" where
  "evaluate_expression P parse expression =
     (let prepared = preprocess_expression expression
      in case parse prepared of
           NotModelled \<Rightarrow> None
         | SyntaxError \<Rightarrow> Some (Inl (ValueError SyntaxMsg))
         | Parsed parsed \<Rightarrow> Some (visit P parsed))"

section \<open>An instance of the arithmetic\<close>

text \<open>
  For closed examples: floats are rational numbers and every operation is exact; the
  conversion of an integer and the quotient of two integers overflow as they do for
  IEEE binary64 (at \<open>2^1024 - 2^970\<close> in absolute value). The instance agrees with
  binary64 arithmetic where the operands and the exact result are binary64 numbers.
  A power of a base other than zero to an exponent that is not an integer is not
  rational. The instance has one of them, with the value that binary64 arithmetic
  gives it: \<open>(-1) ** 0.5\<close> is the complex number with real part
  \<open>4967757600021511 / 2^106\<close> (the interpreter prints it as 6.123233995736766e-17)
  and imaginary part 1. It reports the others, and the complex powers, as an overflow;
  no example below uses those. The sum, difference, product and quotient of complex
  numbers are exact.
\<close>

definition exact_platform :: "rat platform" where
  "exact_platform =
     \<lparr>float_of_decimal = (\<lambda>m e. of_nat m * 10 powi e),
      float_of_int = (\<lambda>i. if \<bar>i\<bar> < 2 ^ 1024 - 2 ^ 970 then Some (of_int i) else None),
      int_true_divide =
        (\<lambda>a b. if \<bar>of_int a / of_int b :: rat\<bar> < 2 ^ 1024 - 2 ^ 970
               then Some (of_int a / of_int b) else None),
      float_is_zero = (\<lambda>x. x = 0),
      float_neg = uminus,
      float_add = (+),
      float_sub = (-),
      float_mul = (*),
      float_div = (/),
      float_floor_div = (\<lambda>x y. of_int \<lfloor>x / y\<rfloor>),
      float_rem = (\<lambda>x y. x - of_int \<lfloor>x / y\<rfloor> * y),
      float_pow =
        (\<lambda>x y. if y = 0 then Inr (VFloat 1)
               else if x = 0 then (if y < 0 then Inl ZeroDivisionError else Inr (VFloat 0))
               else if y = of_int \<lfloor>y\<rfloor> then Inr (VFloat (x powi \<lfloor>y\<rfloor>))
               else if x = - 1 \<and> y = 1 / 2
                 then Inr (VComplex (4967757600021511 / 2 ^ 106) 1)
               else Inl OverflowError),
      complex_neg = (\<lambda>z. (- fst z, - snd z)),
      complex_arith =
        (\<lambda>op z w.
           if op = Add then Inr (fst z + fst w, snd z + snd w)
           else if op = Sub then Inr (fst z - fst w, snd z - snd w)
           else if op = Mult
             then Inr (fst z * fst w - snd z * snd w, fst z * snd w + snd z * fst w)
           else if op = Div then
             (if fst w = 0 \<and> snd w = 0 then Inl ZeroDivisionError
              else Inr ((fst z * fst w + snd z * snd w) / (fst w * fst w + snd w * snd w),
                        (snd z * fst w - fst z * snd w) / (fst w * fst w + snd w * snd w)))
           else Inl OverflowError)\<rparr>"

section \<open>Predicates on trees\<close>

text \<open>
  \<open>has_refused\<close>: the tree has a node at which a visitor raises whatever its
  children are: a name, a call, a constant that is not a number, or a node of a class
  outside \<open>allowed_nodes\<close>.
\<close>

fun has_refused :: "'f node \<Rightarrow> bool"
  and has_refused_list :: "'f node list \<Rightarrow> bool" where
  "has_refused (Expression body) = has_refused body"
| "has_refused (BinOp left operator_type right) = (has_refused left \<or> has_refused right)"
| "has_refused (UnaryOp operator_type operand) = has_refused operand"
| "has_refused (Constant c) = isl (visit_Constant c)"
| "has_refused (Name ident) = True"
| "has_refused (Call func args) = True"
| "has_refused (Other cls children) = (has_refused_list children \<or> cls \<notin> set allowed_nodes)"
| "has_refused_list [] = False"
| "has_refused_list (child # rest) = (has_refused child \<or> has_refused_list rest)"

text \<open>\<open>mentions_name_or_call\<close>: the tree has a \<open>Name\<close> or a \<open>Call\<close> node.\<close>

fun mentions_name_or_call :: "'f node \<Rightarrow> bool"
  and mentions_name_or_call_list :: "'f node list \<Rightarrow> bool" where
  "mentions_name_or_call (Expression body) = mentions_name_or_call body"
| "mentions_name_or_call (BinOp left operator_type right) =
     (mentions_name_or_call left \<or> mentions_name_or_call right)"
| "mentions_name_or_call (UnaryOp operator_type operand) = mentions_name_or_call operand"
| "mentions_name_or_call (Constant c) = False"
| "mentions_name_or_call (Name ident) = True"
| "mentions_name_or_call (Call func args) = True"
| "mentions_name_or_call (Other cls children) = mentions_name_or_call_list children"
| "mentions_name_or_call_list [] = False"
| "mentions_name_or_call_list (child # rest) =
     (mentions_name_or_call child \<or> mentions_name_or_call_list rest)"

text \<open>
  \<open>depth\<close>: the nesting depth of a tree, that is the number of nodes above its deepest
  leaf; the calls of \<open>visit\<close> nest that deep on it. \<open>nested n\<close> is the tree of the
  literal 1 under \<open>n\<close> unary plus operators, which the parser builds for \<open>+ + ... + 1\<close>.
\<close>

fun depth :: "'f node \<Rightarrow> nat"
  and depth_list :: "'f node list \<Rightarrow> nat" where
  "depth (Expression body) = Suc (depth body)"
| "depth (BinOp left operator_type right) = Suc (max (depth left) (depth right))"
| "depth (UnaryOp operator_type operand) = Suc (depth operand)"
| "depth (Constant c) = 0"
| "depth (Name ident) = 0"
| "depth (Call func args) = Suc (max (depth func) (depth_list args))"
| "depth (Other cls children) = Suc (depth_list children)"
| "depth_list [] = 0"
| "depth_list (child # rest) = max (depth child) (depth_list rest)"


section \<open>Evaluation of closed terms\<close>

text \<open>The defining equations that a run on a concrete input unfolds.\<close>

lemmas lexer_defs =
  is_digit_def is_name_start_def is_name_char_def digits_value_def lex_exponent_def
  lex_number_def py_keywords_def is_quote_def plain_char_def starts_with_def lex_operator_def

lemmas prepare_defs = preprocess_expression_def strip_def str_replace_def isspace_def

lemmas operator_defs =
  apply_BinOp_def apply_UnaryOp_def BINARY_OPERATORS_def UNARY_OPERATORS_def both_int_def
  float_pair_def op_add_def op_sub_def op_mul_def op_truediv_def op_floordiv_def op_mod_def
  op_pow_def

section \<open>The preprocessor\<close>

lemma str_replace_append:
  "str_replace c new (xs @ ys) = str_replace c new xs @ str_replace c new ys"
  by (simp add: str_replace_def)

lemma str_replace_avoids: "c \<notin> set new \<Longrightarrow> c \<notin> set (str_replace c new s)"
  by (induction s) (auto simp: str_replace_def)

lemma set_strip: "set (strip s) \<subseteq> set s"
proof -
  have "set (strip s) \<subseteq> set (dropWhile isspace s)"
    unfolding strip_def using set_dropWhileD by fastforce
  also have "\<dots> \<subseteq> set s"
    using set_dropWhileD by fastforce
  finally show ?thesis .
qed

lemma strip_decomposition:
  "\<exists>l r. list_all isspace l \<and> list_all isspace r \<and> s = l @ strip s @ r"
proof -
  let ?t = "dropWhile isspace s"
  let ?l = "takeWhile isspace s"
  let ?r = "rev (takeWhile isspace (rev ?t))"
  have "strip s @ ?r = rev (takeWhile isspace (rev ?t) @ dropWhile isspace (rev ?t))"
    by (simp only: strip_def rev_append)
  also have "\<dots> = ?t"
    by (simp only: takeWhile_dropWhile_id rev_rev_ident)
  finally have t: "?t = strip s @ ?r" by (rule sym)
  have "s = ?l @ ?t" by simp
  with t have "s = ?l @ strip s @ ?r" by simp
  moreover have "list_all isspace ?l"
    by (simp add: list_all_iff) (meson set_takeWhileD)
  moreover have "list_all isspace ?r"
    by (simp add: list_all_iff) (meson set_takeWhileD)
  ultimately show ?thesis by blast
qed

lemma strip_ends:
  assumes "strip s \<noteq> []"
  shows "\<not> isspace (hd (strip s))" and "\<not> isspace (last (strip s))"
proof -
  let ?t = "dropWhile isspace s"
  let ?u = "dropWhile isspace (rev ?t)"
  from assms have u: "?u \<noteq> []" by (simp add: strip_def)
  have t: "?t \<noteq> []"
  proof
    assume "?t = []"
    then have "rev ?t = []" by (simp only: rev.simps)
    then have "?u = []" by (simp only: dropWhile.simps)
    with u show False by contradiction
  qed
  have "last (strip s) = hd ?u"
    using u by (simp add: strip_def last_rev)
  moreover have "\<not> isspace (hd ?u)"
    using u by (rule hd_dropWhile)
  ultimately show "\<not> isspace (last (strip s))" by simp
  have "hd (strip s) = last ?u"
    using u by (simp add: strip_def hd_rev)
  also have "\<dots> = last (rev ?t)"
    using u by (metis last_appendR takeWhile_dropWhile_id)
  also have "\<dots> = hd ?t"
    using t by (simp add: last_rev)
  finally have "hd (strip s) = hd ?t" .
  moreover have "\<not> isspace (hd ?t)"
    using t by (rule hd_dropWhile)
  ultimately show "\<not> isspace (hd (strip s))" by simp
qed

lemma caret_example:
  "evaluate_expression P (ast_parse P) ''2 ^ 10'' = Some (Inr (VInt 1024))"
  by (simp add: evaluate_expression_def ast_parse_def prepare_defs lexer_defs operator_defs)

text \<open>
  C6. For every input, \<open>preprocess_expression\<close> returns the input with each caret
  replaced by the two characters of the power operator and with the whitespace at
  both ends removed. It is a total function on strings. In the statement: the result
  has no caret; it is the replaced string without a prefix and a suffix of whitespace,
  and it neither starts nor ends with whitespace; the replacement works character by
  character; and \<open>evaluate_expression("2 ^ 10")\<close> returns 1024.
\<close>

theorem preprocess_expression_replaces_and_strips:
  "CHR ''^'' \<notin> set (preprocess_expression s)
   \<and> (\<exists>l r. list_all isspace l \<and> list_all isspace r
         \<and> str_replace (CHR ''^'') ''**'' s = l @ preprocess_expression s @ r)
   \<and> (preprocess_expression s \<noteq> [] \<longrightarrow>
         \<not> isspace (hd (preprocess_expression s)) \<and> \<not> isspace (last (preprocess_expression s)))
   \<and> str_replace (CHR ''^'') ''**'' (xs @ ys)
       = str_replace (CHR ''^'') ''**'' xs @ str_replace (CHR ''^'') ''**'' ys
   \<and> str_replace (CHR ''^'') ''**'' [x] = (if x = CHR ''^'' then ''**'' else [x])
   \<and> evaluate_expression P (ast_parse P) ''2 ^ 10'' = Some (Inr (VInt 1024))"
proof -
  have "CHR ''^'' \<notin> set (str_replace (CHR ''^'') ''**'' s)"
    by (rule str_replace_avoids) simp
  then have "CHR ''^'' \<notin> set (preprocess_expression s)"
    unfolding preprocess_expression_def using set_strip by blast
  moreover have "\<exists>l r. list_all isspace l \<and> list_all isspace r
         \<and> str_replace (CHR ''^'') ''**'' s = l @ preprocess_expression s @ r"
    unfolding preprocess_expression_def by (rule strip_decomposition)
  moreover have "preprocess_expression s \<noteq> [] \<longrightarrow>
         \<not> isspace (hd (preprocess_expression s)) \<and> \<not> isspace (last (preprocess_expression s))"
    unfolding preprocess_expression_def using strip_ends by blast
  moreover have "str_replace (CHR ''^'') ''**'' [x] = (if x = CHR ''^'' then ''**'' else [x])"
    by (simp add: str_replace_def)
  ultimately show ?thesis
    using str_replace_append caret_example by blast
qed

theorem preprocess_expression_witness:
  "preprocess_expression '' 2 ^ 10  '' = ''2 ** 10''
   \<and> preprocess_expression '' 2 ^ 10  '' \<noteq> []
   \<and> \<not> isspace (hd (preprocess_expression '' 2 ^ 10  ''))
   \<and> \<not> isspace (last (preprocess_expression '' 2 ^ 10  ''))"
proof -
  have eq: "preprocess_expression '' 2 ^ 10  '' = ''2 ** 10''"
    by (simp add: prepare_defs)
  then have ne: "preprocess_expression '' 2 ^ 10  '' \<noteq> []" by simp
  show ?thesis
    using eq ne preprocess_expression_replaces_and_strips [of "'' 2 ^ 10  ''"] by blast
qed

section \<open>Names and calls\<close>

lemma visit_refused:
  fixes t :: "'f node" and ts :: "'f node list"
  shows "has_refused t \<Longrightarrow> \<exists>e. visit P t = Inl e"
    and "has_refused_list ts \<Longrightarrow> \<exists>e. visit_fields P ts = Inl e"
proof (induction t and ts rule: has_refused_has_refused_list.induct)
  case (4 c)
  then show ?case by (cases "visit_Constant c") auto
qed (auto split: sum.splits)

lemma mentions_refused:
  fixes t :: "'f node" and ts :: "'f node list"
  shows "mentions_name_or_call t \<Longrightarrow> has_refused t"
    and "mentions_name_or_call_list ts \<Longrightarrow> has_refused_list ts"
  by (induction t and ts rule: has_refused_has_refused_list.induct) auto

lemma import_os_example:
  "evaluate_expression P (ast_parse P) ''__import__('os')'' = Some (Inl (ValueError CallsNotAllowed))"
  by (simp add: evaluate_expression_def ast_parse_def prepare_defs lexer_defs)

text \<open>
  C1. An input with an identifier or a call never evaluates to a number: whatever the
  parser is, when the tree it returns has a \<open>Name\<close> or a \<open>Call\<close> node the call of
  \<open>evaluate_expression\<close> fails, and when the parser raises a syntax error it fails
  too. No name is looked up and no call is made: the visitors of both nodes raise at
  once. \<open>evaluate_expression("__import__('os')")\<close> fails with the error of the call.
\<close>

theorem names_and_calls_rejected:
  "(parse (preprocess_expression s) = Parsed t \<and> mentions_name_or_call t
      \<longrightarrow> (\<exists>e. evaluate_expression P parse s = Some (Inl e)))
   \<and> (parse (preprocess_expression s) = SyntaxError
      \<longrightarrow> evaluate_expression P parse s = Some (Inl (ValueError SyntaxMsg)))
   \<and> visit P (Name ident) = Inl (ValueError NamesNotAllowed)
   \<and> visit P (Call func args) = Inl (ValueError CallsNotAllowed)
   \<and> evaluate_expression P (ast_parse P) ''__import__('os')''
       = Some (Inl (ValueError CallsNotAllowed))"
proof -
  have "\<exists>e. evaluate_expression P parse s = Some (Inl e)"
    if "parse (preprocess_expression s) = Parsed t" and "mentions_name_or_call t"
  proof -
    from that(2) have "has_refused t" by (rule mentions_refused)
    then obtain e where "visit P t = Inl e" using visit_refused(1) by blast
    with that(1) show ?thesis by (simp add: evaluate_expression_def)
  qed
  moreover have "evaluate_expression P parse s = Some (Inl (ValueError SyntaxMsg))"
    if "parse (preprocess_expression s) = SyntaxError"
    using that by (simp add: evaluate_expression_def)
  ultimately show ?thesis
    using import_os_example by auto
qed

theorem names_and_calls_rejected_witness:
  "ast_parse exact_platform (preprocess_expression ''x + 1'')
     = Parsed (Expression (BinOp (Name ''x'') Add (Constant (CInt 1))))
   \<and> mentions_name_or_call (Expression (BinOp (Name ''x'') Add (Constant (CInt 1)) :: rat node))
   \<and> (\<exists>e. evaluate_expression exact_platform (ast_parse exact_platform) ''x + 1'' = Some (Inl e))"
proof -
  have p: "ast_parse exact_platform (preprocess_expression ''x + 1'')
     = Parsed (Expression (BinOp (Name ''x'') Add (Constant (CInt 1))))"
    by (simp add: ast_parse_def prepare_defs lexer_defs)
  have m: "mentions_name_or_call (Expression (BinOp (Name ''x'') Add (Constant (CInt 1)) :: rat node))"
    by simp
  from p m show ?thesis
    using names_and_calls_rejected [of "ast_parse exact_platform" "''x + 1''"
        "Expression (BinOp (Name ''x'') Add (Constant (CInt 1)))" exact_platform]
    by blast
qed

section \<open>Precedence\<close>

text \<open>
  C5. Precedence and grouping: \<open>evaluate_expression("2 + 3 * 4")\<close> returns 14 and
  \<open>evaluate_expression("(2 + 3) * 4")\<close> returns 20.
\<close>

theorem precedence_and_grouping:
  "evaluate_expression P (ast_parse P) ''2 + 3 * 4'' = Some (Inr (VInt 14))
   \<and> evaluate_expression P (ast_parse P) ''(2 + 3) * 4'' = Some (Inr (VInt 20))"
proof
  show "evaluate_expression P (ast_parse P) ''2 + 3 * 4'' = Some (Inr (VInt 14))"
    by (simp add: evaluate_expression_def ast_parse_def prepare_defs lexer_defs operator_defs)
  show "evaluate_expression P (ast_parse P) ''(2 + 3) * 4'' = Some (Inr (VInt 20))"
    by (simp add: evaluate_expression_def ast_parse_def prepare_defs lexer_defs operator_defs)
qed

section \<open>Nodes outside the allow-list\<close>

text \<open>
  C2, as the claim states it, fails at a \<open>Name\<close> node: the evaluator raises the error
  of \<open>visit_Name\<close>, not the one of \<open>generic_visit\<close>.
\<close>

theorem name_is_not_invalid_construct:
  "visit exact_platform (Name ''x'') = Inl (ValueError NamesNotAllowed)
   \<and> visit exact_platform (Name ''x'') \<noteq> Inl (ValueError (BadConstruct ''Name''))"
  by simp

text \<open>
  C2, amended. In the evaluator itself, for every tree and without a parser: a node of
  a class outside \<open>allowed_nodes\<close>, other than \<open>Name\<close> and \<open>Call\<close>, fails with the
  error of the construct that is not allowed, which names its class, whatever its
  children are; a \<open>Name\<close> and a \<open>Call\<close> fail with the errors of their own visitors;
  a node of a class of \<open>allowed_nodes\<close> that has no visitor, such as \<open>Load\<close> or
  \<open>Expr\<close>, does not fail: its children are visited and the result is \<open>None\<close>.
\<close>

theorem generic_visit_rejects_unlisted:
  "(cls \<notin> set allowed_nodes \<longrightarrow> visit P (Other cls children) = Inl (ValueError (BadConstruct cls)))
   \<and> visit P (Name ident) = Inl (ValueError NamesNotAllowed)
   \<and> visit P (Call func args) = Inl (ValueError CallsNotAllowed)
   \<and> visit P (Other ''Load'' []) = Inr VNone
   \<and> visit P (Other ''Expr'' [Constant (CInt 1)]) = Inr VNone"
  by (simp add: allowed_nodes_def)

theorem generic_visit_rejects_unlisted_witness:
  "''Compare'' \<notin> set allowed_nodes
   \<and> visit exact_platform (Other ''Compare'' [Name ''x''])
       = Inl (ValueError (BadConstruct ''Compare''))"
proof -
  have a: "''Compare'' \<notin> set allowed_nodes" by (simp add: allowed_nodes_def)
  from a show ?thesis
    using generic_visit_rejects_unlisted [of "''Compare''" exact_platform "[Name ''x'']"]
    by blast
qed

section \<open>Rejection of other syntax\<close>

text \<open>
  C3, as the claim states it, fails at \<open>x + 1\<close>: the parser accepts the input, and
  the error is the one of \<open>visit_Name\<close>, not the syntax error of line 105.
\<close>

theorem identifier_is_not_a_syntax_error:
  "evaluate_expression exact_platform (ast_parse exact_platform) ''x + 1''
     = Some (Inl (ValueError NamesNotAllowed))
   \<and> evaluate_expression exact_platform (ast_parse exact_platform) ''x + 1''
     \<noteq> Some (Inl (ValueError SyntaxMsg))"
  by (simp add: evaluate_expression_def ast_parse_def prepare_defs lexer_defs)

lemma rejected_examples:
  "evaluate_expression P (ast_parse P) ''x + 1'' = Some (Inl (ValueError NamesNotAllowed))"
  "evaluate_expression P (ast_parse P) ''f(1)'' = Some (Inl (ValueError CallsNotAllowed))"
  "evaluate_expression P (ast_parse P) ''2 * 'a' + 1'' = Some (Inl (ValueError OnlyNumericLiterals))"
  "evaluate_expression P (ast_parse P) ''[1, 2]'' = Some (Inl (ValueError (BadConstruct ''List'')))"
  "evaluate_expression P (ast_parse P) ''1 < 2'' = Some (Inl (ValueError (BadConstruct ''Compare'')))"
  by (simp_all add: evaluate_expression_def ast_parse_def prepare_defs lexer_defs allowed_nodes_def)

lemma apply_BinOp_not_syntax: "apply_BinOp P op l r \<noteq> Inl (ValueError SyntaxMsg)"
  by (auto simp: apply_BinOp_def split: option.splits sum.splits py_exception.splits)

lemma apply_UnaryOp_not_syntax: "apply_UnaryOp P op v \<noteq> Inl (ValueError SyntaxMsg)"
  by (auto simp: apply_UnaryOp_def split: option.splits sum.splits)

lemma visit_Constant_not_syntax: "visit_Constant c \<noteq> Inl (ValueError SyntaxMsg)"
  by (cases c) auto

lemma visit_not_syntax:
  fixes t :: "'f node" and ts :: "'f node list"
  shows "visit P t \<noteq> Inl (ValueError SyntaxMsg)"
    and "visit_fields P ts \<noteq> Inl (ValueError SyntaxMsg)"
proof (induction P t and P ts rule: visit_visit_fields.induct)
  case (2 P left operator_type right)
  then show ?case
    by (auto simp: apply_BinOp_not_syntax split: sum.splits)
next
  case (3 P operator_type operand)
  then show ?case
    by (auto simp: apply_UnaryOp_not_syntax split: sum.splits)
next
  case (4 P c)
  then show ?case by (simp add: visit_Constant_not_syntax)
qed (auto split: sum.splits)

lemma syntax_error_iff:
  "(evaluate_expression P parse s = Some (Inl (ValueError SyntaxMsg)))
     = (parse (preprocess_expression s) = SyntaxError)"
  by (cases "parse (preprocess_expression s)")
     (simp_all add: evaluate_expression_def visit_not_syntax)

lemma earlier_failure_example:
  "evaluate_expression P (ast_parse P) ''1 / 0 + x'' = Some (Inl (ValueError DivisionByZero))"
  by (simp add: evaluate_expression_def ast_parse_def prepare_defs lexer_defs operator_defs)

lemma overflow_before_name_example:
  "float_of_int P (10 ^ 400) = None
     \<Longrightarrow> evaluate_expression P (ast_parse P) ''10 ** 400 * 1.0 + x''
           = Some (Inl (Uncaught OverflowError))"
  by (simp add: evaluate_expression_def ast_parse_def prepare_defs lexer_defs operator_defs)

text \<open>
  C3, amended. An input with an identifier, a call, a string, a list or a comparison
  is rejected by the evaluator, after the parser has accepted it, and not as a syntax
  error. Whatever the parser is, a tree with a name, a call, a constant that is not a
  number or a node outside \<open>allowed_nodes\<close> makes \<open>evaluate_expression\<close> fail, never
  return a value, and the error is not the \<open>ValueError\<close> of line 105: that one is
  raised exactly when the parser raises \<open>SyntaxError\<close>. The visitor of a name, of a
  call, of a string constant, of a list and of a comparison raises its own
  \<open>ValueError\<close>, whatever the children are. An error of an operand is the error of
  the operation, the left operand first, so the error of the input is the one of the
  first node that fails: \<open>x + 1\<close>, \<open>f(1)\<close>, \<open>2 * 'a' + 1\<close>, \<open>[1, 2]\<close> and \<open>1 < 2\<close> fail
  with the error of the name, of the call, of the literal that is not a number, and of
  the construct \<open>List\<close> and \<open>Compare\<close>, whereas \<open>1 / 0 + x\<close> fails with the error of
  the division by zero and \<open>10 ** 400 * 1.0 + x\<close> with the \<open>OverflowError\<close> of the
  conversion to a float, which is not caught, before the name is visited.
\<close>

theorem disallowed_syntax_rejected_by_evaluator:
  "(parse (preprocess_expression s) = Parsed t \<and> has_refused t
      \<longrightarrow> (\<exists>e. evaluate_expression P parse s = Some (Inl e) \<and> e \<noteq> ValueError SyntaxMsg))
   \<and> (evaluate_expression P parse s = Some (Inl (ValueError SyntaxMsg)))
       = (parse (preprocess_expression s) = SyntaxError)
   \<and> visit P (Name ident) = Inl (ValueError NamesNotAllowed)
   \<and> visit P (Call func args) = Inl (ValueError CallsNotAllowed)
   \<and> visit P (Constant (CStr str)) = Inl (ValueError OnlyNumericLiterals)
   \<and> visit P (Other ''List'' children) = Inl (ValueError (BadConstruct ''List''))
   \<and> visit P (Other ''Compare'' children) = Inl (ValueError (BadConstruct ''Compare''))
   \<and> (visit P l = Inl e' \<longrightarrow> visit P (BinOp l op r) = Inl e')
   \<and> (visit P l = Inr v \<and> visit P r = Inl e' \<longrightarrow> visit P (BinOp l op r) = Inl e')
   \<and> (visit P l = Inl e' \<longrightarrow> visit P (UnaryOp uop l) = Inl e')
   \<and> evaluate_expression P (ast_parse P) ''x + 1'' = Some (Inl (ValueError NamesNotAllowed))
   \<and> evaluate_expression P (ast_parse P) ''f(1)'' = Some (Inl (ValueError CallsNotAllowed))
   \<and> evaluate_expression P (ast_parse P) ''2 * 'a' + 1'' = Some (Inl (ValueError OnlyNumericLiterals))
   \<and> evaluate_expression P (ast_parse P) ''[1, 2]'' = Some (Inl (ValueError (BadConstruct ''List'')))
   \<and> evaluate_expression P (ast_parse P) ''1 < 2'' = Some (Inl (ValueError (BadConstruct ''Compare'')))
   \<and> evaluate_expression P (ast_parse P) ''1 / 0 + x'' = Some (Inl (ValueError DivisionByZero))
   \<and> (float_of_int P (10 ^ 400) = None
        \<longrightarrow> evaluate_expression P (ast_parse P) ''10 ** 400 * 1.0 + x''
              = Some (Inl (Uncaught OverflowError)))"
proof -
  have 1: "\<exists>e. evaluate_expression P parse s = Some (Inl e) \<and> e \<noteq> ValueError SyntaxMsg"
    if "parse (preprocess_expression s) = Parsed t" and "has_refused t"
  proof -
    from that(2) obtain e where e: "visit P t = Inl e" using visit_refused(1) by blast
    then have "e \<noteq> ValueError SyntaxMsg" using visit_not_syntax(1) [of P t] by auto
    with e that(1) show ?thesis by (simp add: evaluate_expression_def)
  qed
  have 2: "visit P (Other ''List'' children) = Inl (ValueError (BadConstruct ''List''))"
    "visit P (Other ''Compare'' children) = Inl (ValueError (BadConstruct ''Compare''))"
    by (simp_all add: allowed_nodes_def)
  have 3: "visit P l = Inl e' \<longrightarrow> visit P (BinOp l op r) = Inl e'"
    "visit P l = Inr v \<and> visit P r = Inl e' \<longrightarrow> visit P (BinOp l op r) = Inl e'"
    "visit P l = Inl e' \<longrightarrow> visit P (UnaryOp uop l) = Inl e'"
    by simp_all
  have 4: "visit P (Name ident) = Inl (ValueError NamesNotAllowed)"
    "visit P (Call func args) = Inl (ValueError CallsNotAllowed)"
    "visit P (Constant (CStr str)) = Inl (ValueError OnlyNumericLiterals)"
    by simp_all
  from 1 have 5: "parse (preprocess_expression s) = Parsed t \<and> has_refused t
      \<longrightarrow> (\<exists>e. evaluate_expression P parse s = Some (Inl e) \<and> e \<noteq> ValueError SyntaxMsg)"
    by blast
  have 6: "float_of_int P (10 ^ 400) = None
        \<longrightarrow> evaluate_expression P (ast_parse P) ''10 ** 400 * 1.0 + x''
              = Some (Inl (Uncaught OverflowError))"
    using overflow_before_name_example by blast
  show ?thesis
    by (intro conjI 5 syntax_error_iff 2 3 4 rejected_examples earlier_failure_example 6)
qed

theorem disallowed_syntax_witness:
  "ast_parse exact_platform (preprocess_expression ''1 + [x] < 'a' + 2'')
     = Parsed (Expression (Other ''Compare''
         [BinOp (Constant (CInt 1)) Add (Other ''List'' [Name ''x'', Other ''Load'' []]),
          Other ''Lt'' [], BinOp (Constant (CStr ''a'')) Add (Constant (CInt 2))]))
   \<and> has_refused (Expression (Other ''Compare''
         [BinOp (Constant (CInt 1)) Add (Other ''List'' [Name ''x'', Other ''Load'' []]),
          Other ''Lt'' [], BinOp (Constant (CStr ''a'')) Add (Constant (CInt 2))]) :: rat node)
   \<and> (\<exists>e. evaluate_expression exact_platform (ast_parse exact_platform) ''1 + [x] < 'a' + 2''
            = Some (Inl e) \<and> e \<noteq> ValueError SyntaxMsg)
   \<and> visit exact_platform (Name ''x'') = Inl (ValueError NamesNotAllowed)
   \<and> visit exact_platform (BinOp (Name ''x'') Add (Constant (CInt 1)))
       = Inl (ValueError NamesNotAllowed)
   \<and> visit exact_platform (Constant (CInt 1)) = Inr (VInt 1)
   \<and> visit exact_platform (BinOp (Constant (CInt 1)) Add (Name ''x''))
       = Inl (ValueError NamesNotAllowed)
   \<and> visit exact_platform (UnaryOp USub (Name ''x'')) = Inl (ValueError NamesNotAllowed)
   \<and> float_of_int exact_platform (10 ^ 400) = None
   \<and> evaluate_expression exact_platform (ast_parse exact_platform) ''10 ** 400 * 1.0 + x''
       = Some (Inl (Uncaught OverflowError))"
proof -
  let ?t = "Expression (Other ''Compare''
         [BinOp (Constant (CInt 1)) Add (Other ''List'' [Name ''x'', Other ''Load'' []]),
          Other ''Lt'' [], BinOp (Constant (CStr ''a'')) Add (Constant (CInt 2))]) :: rat node"
  have p: "ast_parse exact_platform (preprocess_expression ''1 + [x] < 'a' + 2'') = Parsed ?t"
    by (simp add: ast_parse_def prepare_defs lexer_defs)
  have r: "has_refused ?t" by simp
  have n: "visit exact_platform (Name ''x'') = Inl (ValueError NamesNotAllowed)" by simp
  have c: "visit exact_platform (Constant (CInt 1)) = Inr (VInt 1)" by simp
  have f: "float_of_int exact_platform (10 ^ 400) = None" by (simp add: exact_platform_def)
  from p r n c f show ?thesis
    using disallowed_syntax_rejected_by_evaluator
      [where parse = "ast_parse exact_platform" and s = "''1 + [x] < 'a' + 2''" and t = ?t
         and P = exact_platform and l = "Name ''x''" and e' = "ValueError NamesNotAllowed"
         and op = Add and r = "Constant (CInt 1)" and uop = USub]
      disallowed_syntax_rejected_by_evaluator
      [where P = exact_platform and l = "Constant (CInt 1)" and v = "VInt 1"
         and r = "Name ''x''" and e' = "ValueError NamesNotAllowed" and op = Add]
    by blast
qed

text \<open>
  The literals \<open>True\<close> and \<open>False\<close> pass the test of \<open>visit_Constant\<close>, since \<open>bool\<close>
  is a subclass of \<open>int\<close>, and take part in the arithmetic.
\<close>

lemma bool_literal_accepted:
  "evaluate_expression P (ast_parse P) ''True'' = Some (Inr (VBool True))"
  "evaluate_expression P (ast_parse P) ''True + True'' = Some (Inr (VInt 2))"
  by (simp_all add: evaluate_expression_def ast_parse_def prepare_defs lexer_defs operator_defs Let_def)

section \<open>Division by zero\<close>

lemma apply_BinOp_no_leak: "apply_BinOp P op l r \<noteq> Inl (Uncaught ZeroDivisionError)"
  by (auto simp: apply_BinOp_def split: option.splits sum.splits py_exception.splits)

lemma op_pos_no_zero_division: "op_pos P v \<noteq> Inl ZeroDivisionError"
  by (cases v) auto

lemma op_neg_no_zero_division: "op_neg P v \<noteq> Inl ZeroDivisionError"
  by (cases v) (auto split: prod.splits)

lemma apply_UnaryOp_no_leak: "apply_UnaryOp P op v \<noteq> Inl (Uncaught ZeroDivisionError)"
  using op_pos_no_zero_division [of P v] op_neg_no_zero_division [of P v]
  by (cases op) (auto simp: apply_UnaryOp_def UNARY_OPERATORS_def split: sum.splits)

lemma visit_Constant_no_leak: "visit_Constant c \<noteq> Inl (Uncaught ZeroDivisionError)"
  by (cases c) auto

lemma visit_no_leak:
  fixes t :: "'f node" and ts :: "'f node list"
  shows "visit P t \<noteq> Inl (Uncaught ZeroDivisionError)"
    and "visit_fields P ts \<noteq> Inl (Uncaught ZeroDivisionError)"
proof (induction P t and P ts rule: visit_visit_fields.induct)
  case (2 P left operator_type right)
  then show ?case
    by (auto simp: apply_BinOp_no_leak split: sum.splits)
next
  case (3 P operator_type operand)
  then show ?case
    by (auto simp: apply_UnaryOp_no_leak split: sum.splits)
next
  case (4 P c)
  then show ?case by (simp add: visit_Constant_no_leak)
qed (auto split: sum.splits)

lemma division_operators:
  "map_of BINARY_OPERATORS Div = Some op_truediv"
  "map_of BINARY_OPERATORS FloorDiv = Some op_floordiv"
  "map_of BINARY_OPERATORS Mod = Some op_mod"
  "map_of BINARY_OPERATORS PowOp = Some op_pow"
  by (simp_all add: BINARY_OPERATORS_def)

lemma float_pair_not_complex:
  "float_pair P a b = Inr (x, y) \<Longrightarrow> \<not> is_complex a \<and> \<not> is_complex b"
  by (cases a; cases b) (auto simp: float_pair_def split: sum.splits option.splits if_splits)

lemma zero_divisor_raises:
  assumes "op \<in> {Div, FloorDiv, Mod}"
    and "both_int a b = Some (i, 0)
         \<or> (both_int a b = None \<and> float_pair P a b = Inr (x, y) \<and> float_is_zero P y)"
  shows "apply_BinOp P op a b = Inl (ValueError DivisionByZero)"
proof -
  from assms(2) show ?thesis
  proof
    assume "both_int a b = Some (i, 0)"
    with assms(1) show ?thesis
      by (auto simp: apply_BinOp_def division_operators op_truediv_def op_floordiv_def op_mod_def)
  next
    assume f: "both_int a b = None \<and> float_pair P a b = Inr (x, y) \<and> float_is_zero P y"
    then have "\<not> is_complex a \<and> \<not> is_complex b"
      using float_pair_not_complex [of P a b x y] by simp
    with f assms(1) show ?thesis
      by (auto simp: apply_BinOp_def division_operators op_truediv_def op_floordiv_def op_mod_def)
  qed
qed

lemma ten_by_zero_example:
  "evaluate_expression P (ast_parse P) ''10 / 0'' = Some (Inl (ValueError DivisionByZero))"
  by (simp add: evaluate_expression_def ast_parse_def prepare_defs lexer_defs operator_defs)

text \<open>
  C4, as the claim states it, fails at \<open>10 ** 400 / 0.0\<close>: the right operand is zero,
  but the left operand is converted to a float first, and the \<open>OverflowError\<close> of the
  conversion is not caught.
\<close>

theorem huge_dividend_overflows_before_zero_check:
  "evaluate_expression exact_platform (ast_parse exact_platform) ''10 ** 400 / 0.0''
     = Some (Inl (Uncaught OverflowError))
   \<and> evaluate_expression exact_platform (ast_parse exact_platform) ''10 ** 400 / 0.0''
     \<noteq> Some (Inl (ValueError DivisionByZero))"
  by (simp add: evaluate_expression_def ast_parse_def prepare_defs lexer_defs operator_defs
      exact_platform_def)

text \<open>
  C4, amended. For every division, floor division and modulo whose operands evaluate
  to two integers (or booleans) with a zero on the right, or to numbers that both
  convert to floats with a zero float on the right, the evaluator fails with the
  \<open>ValueError\<close> of the division by zero. No tree makes the evaluator raise a
  \<open>ZeroDivisionError\<close>. \<open>evaluate_expression("10 / 0")\<close> fails with that \<open>ValueError\<close>.
\<close>

theorem division_by_zero_translated:
  "(op \<in> {Div, FloorDiv, Mod} \<and> visit P l = Inr a \<and> visit P r = Inr b
      \<and> (both_int a b = Some (i, 0)
          \<or> (both_int a b = None \<and> float_pair P a b = Inr (x, y) \<and> float_is_zero P y))
      \<longrightarrow> visit P (BinOp l op r) = Inl (ValueError DivisionByZero))
   \<and> visit P t \<noteq> Inl (Uncaught ZeroDivisionError)
   \<and> evaluate_expression P (ast_parse P) ''10 / 0'' = Some (Inl (ValueError DivisionByZero))"
proof -
  have "visit P (BinOp l op r) = Inl (ValueError DivisionByZero)"
    if "op \<in> {Div, FloorDiv, Mod}" and "visit P l = Inr a" and "visit P r = Inr b"
      and "both_int a b = Some (i, 0)
          \<or> (both_int a b = None \<and> float_pair P a b = Inr (x, y) \<and> float_is_zero P y)"
  proof -
    have "apply_BinOp P op a b = Inl (ValueError DivisionByZero)"
      using that(1) that(4) by (rule zero_divisor_raises)
    with that(2) that(3) show ?thesis by simp
  qed
  then show ?thesis
    using visit_no_leak(1) [of P t] ten_by_zero_example [of P] by blast
qed

theorem division_by_zero_witness:
  "FloorDiv \<in> {Div, FloorDiv, Mod}
   \<and> visit exact_platform (Constant (CFloat (15 / 2))) = Inr (VFloat (15 / 2))
   \<and> visit exact_platform (Constant (CBool False)) = Inr (VBool False)
   \<and> both_int (VFloat (15 / 2 :: rat)) (VBool False) = None
   \<and> float_pair exact_platform (VFloat (15 / 2)) (VBool False) = Inr (15 / 2, 0)
   \<and> float_is_zero exact_platform 0
   \<and> visit exact_platform (BinOp (Constant (CFloat (15 / 2))) FloorDiv (Constant (CBool False)))
       = Inl (ValueError DivisionByZero)"
proof -
  have a: "FloorDiv \<in> {Div, FloorDiv, Mod}" by simp
  have b: "visit exact_platform (Constant (CFloat (15 / 2))) = Inr (VFloat (15 / 2))" by simp
  have c: "visit exact_platform (Constant (CBool False)) = Inr (VBool False)" by simp
  have d: "both_int (VFloat (15 / 2 :: rat)) (VBool False) = None" by (simp add: both_int_def)
  have e: "float_pair exact_platform (VFloat (15 / 2)) (VBool False) = Inr (15 / 2, 0)"
    by (simp add: float_pair_def exact_platform_def)
  have f: "float_is_zero exact_platform 0" by (simp add: exact_platform_def)
  from a b c d e f show ?thesis
    using division_by_zero_translated
      [of FloorDiv exact_platform "Constant (CFloat (15 / 2))" "VFloat (15 / 2)"
          "Constant (CBool False)" "VBool False" 0 "15 / 2" 0]
    by blast
qed

section \<open>True division\<close>

lemma truediv_of_reals_is_float:
  assumes "op_truediv P a b = Inr v" and "\<not> is_complex a" and "\<not> is_complex b"
  shows "\<exists>q. v = VFloat q"
  using assms
  by (auto simp: op_truediv_def split: option.splits sum.splits if_splits prod.splits)

lemma truediv_is_never_integer:
  assumes "op_truediv P a b = Inr v"
  shows "(\<exists>q. v = VFloat q) \<or> (\<exists>re im. v = VComplex re im)"
  using assms
  by (auto simp: op_truediv_def complex_op_def
      split: option.splits sum.splits if_splits prod.splits)

lemma apply_truediv:
  "apply_BinOp P Div a b = Inr v \<Longrightarrow> op_truediv P a b = Inr v"
  by (auto simp: apply_BinOp_def division_operators split: sum.splits py_exception.splits)

lemma truediv_of_complex_is_complex:
  assumes "op_truediv P a b = Inr v" and "is_complex a \<or> is_complex b"
  shows "\<exists>re im. v = VComplex re im"
proof -
  from assms(2) have "both_int a b = None"
    by (cases a; cases b) (auto simp: both_int_def)
  with assms show ?thesis
    by (auto simp: op_truediv_def complex_op_def split: sum.splits if_splits prod.splits)
qed

text \<open>
  C7, as the claim states it, fails at \<open>(-1) ** 0.5 / 2\<close>: the power of a negative
  number to a fraction is a complex number, and so is its quotient by 2.
\<close>

theorem true_division_of_complex_is_complex:
  "evaluate_expression exact_platform (ast_parse exact_platform) ''(-1) ** 0.5 / 2''
     = Some (Inr (VComplex (4967757600021511 / 2 ^ 107) (1 / 2)))
   \<and> \<not> (\<exists>q. evaluate_expression exact_platform (ast_parse exact_platform) ''(-1) ** 0.5 / 2''
            = Some (Inr (VFloat q)))"
proof -
  have half: "\<lfloor>1 / 2 :: rat\<rfloor> = 0"
    by (simp add: floor_eq_iff)
  show ?thesis
    by (simp add: evaluate_expression_def ast_parse_def prepare_defs lexer_defs operator_defs
        complex_op_def exact_platform_def half)
qed

text \<open>
  C7, amended. The operator \<open>/\<close> is \<open>operator.truediv\<close>. Its result is a float
  whenever the operands evaluate to integers, booleans or floats, also on two integer
  literals: where the divisor is not zero and the quotient fits a float, the result is
  the float quotient. Where an operand evaluates to a complex number, the result is a
  complex number. Whatever the operands are, the result is a float or a complex
  number, never an integer.
\<close>

theorem true_division_is_float:
  "map_of BINARY_OPERATORS Div = Some op_truediv
   \<and> (b \<noteq> 0 \<and> int_true_divide P a b = Some q
        \<longrightarrow> visit P (BinOp (Constant (CInt a)) Div (Constant (CInt b))) = Inr (VFloat q))
   \<and> visit P (BinOp (Constant (CInt a)) Div (Constant (CInt b))) \<noteq> Inr (VInt k)
   \<and> (visit P l = Inr x \<and> visit P r = Inr y \<and> \<not> is_complex x \<and> \<not> is_complex y
        \<and> visit P (BinOp l Div r) = Inr v
        \<longrightarrow> (\<exists>q. v = VFloat q))
   \<and> (visit P (BinOp l Div r) = Inr v
        \<longrightarrow> (\<exists>q. v = VFloat q) \<or> (\<exists>re im. v = VComplex re im))
   \<and> (visit P l = Inr x \<and> visit P r = Inr y \<and> (is_complex x \<or> is_complex y)
        \<and> visit P (BinOp l Div r) = Inr v
        \<longrightarrow> (\<exists>re im. v = VComplex re im))"
proof -
  have 1: "visit P (BinOp (Constant (CInt a)) Div (Constant (CInt b))) = Inr (VFloat q)"
    if "b \<noteq> 0" and "int_true_divide P a b = Some q"
    using that by (simp add: apply_BinOp_def division_operators op_truediv_def both_int_def)
  have 2: "visit P (BinOp (Constant (CInt a)) Div (Constant (CInt b))) \<noteq> Inr (VInt k)"
    by (simp add: apply_BinOp_def division_operators op_truediv_def both_int_def
        split: option.splits)
  have 3: "\<exists>q. v = VFloat q"
    if "visit P l = Inr x" and "visit P r = Inr y" and "\<not> is_complex x" and "\<not> is_complex y"
      and "visit P (BinOp l Div r) = Inr v"
  proof -
    from that(1,2,5) have "apply_BinOp P Div x y = Inr v" by simp
    then have "op_truediv P x y = Inr v" by (rule apply_truediv)
    then show ?thesis using that(3,4) by (rule truediv_of_reals_is_float)
  qed
  have 4: "(\<exists>q. v = VFloat q) \<or> (\<exists>re im. v = VComplex re im)"
    if "visit P (BinOp l Div r) = Inr v"
  proof -
    from that obtain x y where "apply_BinOp P Div x y = Inr v"
      by (auto split: sum.splits)
    then have "op_truediv P x y = Inr v" by (rule apply_truediv)
    then show ?thesis by (rule truediv_is_never_integer)
  qed
  have 5: "\<exists>re im. v = VComplex re im"
    if "visit P l = Inr x" and "visit P r = Inr y" and "is_complex x \<or> is_complex y"
      and "visit P (BinOp l Div r) = Inr v"
  proof -
    from that(1,2,4) have "apply_BinOp P Div x y = Inr v" by simp
    then have "op_truediv P x y = Inr v" by (rule apply_truediv)
    then show ?thesis using that(3) by (rule truediv_of_complex_is_complex)
  qed
  from 1 2 3 4 5 show ?thesis
    using division_operators(1) by blast
qed

theorem true_division_witness:
  "(2::int) \<noteq> 0
   \<and> int_true_divide exact_platform 7 2 = Some (7 / 2)
   \<and> visit exact_platform (BinOp (Constant (CInt 7)) Div (Constant (CInt 2))) = Inr (VFloat (7 / 2))
   \<and> visit exact_platform (BinOp (Constant (CFloat 3)) Div (Constant (CBool True))) = Inr (VFloat 3)
   \<and> \<not> is_complex (VFloat (3::rat)) \<and> \<not> is_complex (VBool True :: rat val)
   \<and> (\<exists>q. VFloat (3::rat) = VFloat q)
   \<and> visit exact_platform (BinOp (Constant (CInt (- 1))) PowOp (Constant (CFloat (1 / 2))))
       = Inr (VComplex (4967757600021511 / 2 ^ 106) 1)
   \<and> is_complex (VComplex (4967757600021511 / 2 ^ 106) (1::rat))
   \<and> visit exact_platform
        (BinOp (BinOp (Constant (CInt (- 1))) PowOp (Constant (CFloat (1 / 2)))) Div
           (Constant (CInt 2)))
       = Inr (VComplex (4967757600021511 / 2 ^ 107) (1 / 2))
   \<and> (\<exists>re im. VComplex (4967757600021511 / 2 ^ 107) (1 / 2 :: rat) = VComplex re im)"
proof -
  have half: "\<lfloor>1 / 2 :: rat\<rfloor> = 0"
    by (simp add: floor_eq_iff)
  have a: "(2::int) \<noteq> 0" by simp
  have b: "int_true_divide exact_platform 7 2 = Some (7 / 2)"
    by (simp add: exact_platform_def)
  have c: "visit exact_platform (Constant (CFloat 3)) = Inr (VFloat 3)" by simp
  have d: "visit exact_platform (Constant (CBool True)) = Inr (VBool True)" by simp
  have e: "\<not> is_complex (VFloat (3::rat))" "\<not> is_complex (VBool True :: rat val)" by simp_all
  have f: "visit exact_platform (BinOp (Constant (CFloat 3)) Div (Constant (CBool True))) = Inr (VFloat 3)"
    by (simp add: operator_defs exact_platform_def)
  have g: "visit exact_platform (BinOp (Constant (CInt (- 1))) PowOp (Constant (CFloat (1 / 2))))
       = Inr (VComplex (4967757600021511 / 2 ^ 106) 1)"
    by (simp add: operator_defs exact_platform_def half)
  have h: "visit exact_platform (Constant (CInt 2)) = Inr (VInt 2)" by simp
  have i: "is_complex (VComplex (4967757600021511 / 2 ^ 106) (1::rat))" by simp
  have j: "visit exact_platform
        (BinOp (BinOp (Constant (CInt (- 1))) PowOp (Constant (CFloat (1 / 2)))) Div
           (Constant (CInt 2)))
       = Inr (VComplex (4967757600021511 / 2 ^ 107) (1 / 2))"
    by (simp add: operator_defs complex_op_def exact_platform_def half)
  from a b c d e f g h i j show ?thesis
    using true_division_is_float [where b = 2 and P = exact_platform and a = 7 and q = "7 / 2"
        and l = "Constant (CFloat 3)" and x = "VFloat 3" and r = "Constant (CBool True)"
        and y = "VBool True" and v = "VFloat 3"]
      true_division_is_float [where P = exact_platform
        and l = "BinOp (Constant (CInt (- 1))) PowOp (Constant (CFloat (1 / 2)))"
        and x = "VComplex (4967757600021511 / 2 ^ 106) 1" and r = "Constant (CInt 2)"
        and y = "VInt 2" and v = "VComplex (4967757600021511 / 2 ^ 107) (1 / 2)"]
    by blast
qed

section \<open>Numeric literals\<close>

text \<open>
  C8, as the claim states it, fails at \<open>1e10\<close>: the parser accepts the exponent and
  the evaluator returns the float.
\<close>

theorem exponent_literal_evaluates:
  "evaluate_expression exact_platform (ast_parse exact_platform) ''1e10''
     = Some (Inr (VFloat 10000000000))
   \<and> evaluate_expression exact_platform (ast_parse exact_platform) ''1e10''
     \<noteq> Some (Inl (ValueError SyntaxMsg))"
  by (simp add: evaluate_expression_def ast_parse_def prepare_defs lexer_defs exact_platform_def)

text \<open>
  C8, amended. Numeric literals are the integer and float literals of Python's grammar,
  exponent notation included: \<open>evaluate_expression("1e10")\<close> returns the float of the
  literal, as do \<open>2.5E-3\<close> and \<open>1.5\<close>, and \<open>42\<close> returns the integer.
\<close>

theorem float_literals_with_exponent:
  "evaluate_expression P (ast_parse P) ''1e10'' = Some (Inr (VFloat (float_of_decimal P 1 10)))
   \<and> evaluate_expression P (ast_parse P) ''2.5E-3'' = Some (Inr (VFloat (float_of_decimal P 25 (- 4))))
   \<and> evaluate_expression P (ast_parse P) ''1.5'' = Some (Inr (VFloat (float_of_decimal P 15 (- 1))))
   \<and> evaluate_expression P (ast_parse P) ''42'' = Some (Inr (VInt 42))"
  by (simp add: evaluate_expression_def ast_parse_def prepare_defs lexer_defs)

section \<open>Nesting depth\<close>






section \<open>Zero to a negative power\<close>

lemma zero_division_is_translated:
  "map_of BINARY_OPERATORS op = Some f \<Longrightarrow> f P l r = Inl ZeroDivisionError
     \<Longrightarrow> apply_BinOp P op l r = Inl (ValueError DivisionByZero)"
  by (simp add: apply_BinOp_def)

lemma zero_to_negative_int:
  assumes "b < 0" and "float_of_int P 0 = Some z" and "float_of_int P b = Some y"
  shows "apply_BinOp P PowOp (VInt 0) (VInt b) = Inl (ValueError DivisionByZero)"
  using assms by (simp add: apply_BinOp_def division_operators op_pow_def both_int_def float_pair_def)

lemma zero_to_huge_negative_int:
  assumes "b < 0" and "float_of_int P 0 = Some z" and "float_of_int P b = None"
  shows "apply_BinOp P PowOp (VInt 0) (VInt b) = Inl (Uncaught OverflowError)"
  using assms by (simp add: apply_BinOp_def division_operators op_pow_def both_int_def float_pair_def)

text \<open>
  C10, as the claim states it, fails at \<open>0 ** -(10 ** 400)\<close>: zero is raised to a
  negative exponent, but the exponent is converted to a float first, and the
  \<open>OverflowError\<close> of the conversion is not caught.
\<close>

theorem huge_negative_exponent_overflows:
  "evaluate_expression exact_platform (ast_parse exact_platform) ''0 ** -(10 ** 400)''
     = Some (Inl (Uncaught OverflowError))
   \<and> evaluate_expression exact_platform (ast_parse exact_platform) ''0 ** -(10 ** 400)''
     \<noteq> Some (Inl (ValueError DivisionByZero))"
  by (simp add: evaluate_expression_def ast_parse_def prepare_defs lexer_defs operator_defs
      exact_platform_def)

text \<open>
  C10, amended. The handler of \<open>ZeroDivisionError\<close> wraps the call of every operator of
  \<open>BINARY_OPERATORS\<close>, the power included: whenever the function of the table raises
  \<open>ZeroDivisionError\<close>, the evaluator fails with the \<open>ValueError\<close> of the division by
  zero. Integer zero to a negative integer raises it where the exponent converts to a
  float, so \<open>evaluate_expression("0 ** -1")\<close> fails with that same \<open>ValueError\<close>. Where
  the exponent is too large for a float, the \<open>OverflowError\<close> of the conversion is
  raised instead and is not caught.
\<close>

theorem zero_to_negative_power:
  "(map_of BINARY_OPERATORS op = Some f \<and> f P l r = Inl ZeroDivisionError
      \<longrightarrow> apply_BinOp P op l r = Inl (ValueError DivisionByZero))
   \<and> map_of BINARY_OPERATORS PowOp = Some op_pow
   \<and> (b < 0 \<and> float_of_int P 0 = Some z \<and> float_of_int P b = Some y
      \<longrightarrow> visit P (BinOp (Constant (CInt 0)) PowOp (Constant (CInt b)))
          = Inl (ValueError DivisionByZero))
   \<and> (float_of_int P 0 = Some z \<and> float_of_int P (- 1) = Some y'
      \<longrightarrow> evaluate_expression P (ast_parse P) ''0 ** -1'' = Some (Inl (ValueError DivisionByZero)))
   \<and> (b < 0 \<and> float_of_int P 0 = Some z \<and> float_of_int P b = None
      \<longrightarrow> visit P (BinOp (Constant (CInt 0)) PowOp (Constant (CInt b)))
          = Inl (Uncaught OverflowError))"
proof -
  have 1: "apply_BinOp P op l r = Inl (ValueError DivisionByZero)"
    if "map_of BINARY_OPERATORS op = Some f" and "f P l r = Inl ZeroDivisionError"
    using that by (rule zero_division_is_translated)
  have 2: "visit P (BinOp (Constant (CInt 0)) PowOp (Constant (CInt b)))
          = Inl (ValueError DivisionByZero)"
    if "b < 0" and "float_of_int P 0 = Some z" and "float_of_int P b = Some y"
    using zero_to_negative_int [OF that] by simp
  have 3: "evaluate_expression P (ast_parse P) ''0 ** -1'' = Some (Inl (ValueError DivisionByZero))"
    if "float_of_int P 0 = Some z" and "float_of_int P (- 1) = Some y'"
  proof -
    have "evaluate_expression P (ast_parse P) ''0 ** -1''
      = Some (visit P (Expression (BinOp (Constant (CInt 0)) PowOp (UnaryOp USub (Constant (CInt 1))))))"
      by (simp add: evaluate_expression_def ast_parse_def prepare_defs lexer_defs)
    also have "\<dots> = Some (apply_BinOp P PowOp (VInt 0) (VInt (- 1)))"
      by (simp add: apply_UnaryOp_def UNARY_OPERATORS_def)
    also have "\<dots> = Some (Inl (ValueError DivisionByZero))"
      using zero_to_negative_int [of "- 1" P z y'] that by simp
    finally show ?thesis .
  qed
  have 4: "visit P (BinOp (Constant (CInt 0)) PowOp (Constant (CInt b)))
          = Inl (Uncaught OverflowError)"
    if "b < 0" and "float_of_int P 0 = Some z" and "float_of_int P b = None"
    using zero_to_huge_negative_int [OF that] by simp
  from 1 2 3 4 show ?thesis
    using division_operators(4) by blast
qed

theorem zero_to_negative_power_witness:
  "float_of_int exact_platform 0 = Some 0
   \<and> float_of_int exact_platform (- 1) = Some (- 1)
   \<and> evaluate_expression exact_platform (ast_parse exact_platform) ''0 ** -1''
       = Some (Inl (ValueError DivisionByZero))
   \<and> map_of BINARY_OPERATORS FloorDiv
       = Some (op_floordiv :: rat platform \<Rightarrow> rat val \<Rightarrow> rat val \<Rightarrow> py_exception + rat val)
   \<and> op_floordiv exact_platform (VInt 1) (VInt 0) = Inl ZeroDivisionError
   \<and> apply_BinOp exact_platform FloorDiv (VInt 1) (VInt 0) = Inl (ValueError DivisionByZero)
   \<and> - (10 ^ 400) < (0 :: int)
   \<and> float_of_int exact_platform (- (10 ^ 400)) = None
   \<and> visit exact_platform (BinOp (Constant (CInt 0)) PowOp (Constant (CInt (- (10 ^ 400)))))
       = Inl (Uncaught OverflowError)"
proof -
  have a: "float_of_int exact_platform 0 = Some 0" by (simp add: exact_platform_def)
  have b: "float_of_int exact_platform (- 1) = Some (- 1)" by (simp add: exact_platform_def)
  have c: "map_of BINARY_OPERATORS FloorDiv
       = Some (op_floordiv :: rat platform \<Rightarrow> rat val \<Rightarrow> rat val \<Rightarrow> py_exception + rat val)"
    by (simp add: BINARY_OPERATORS_def)
  have d: "op_floordiv exact_platform (VInt 1) (VInt 0) = Inl ZeroDivisionError"
    by (simp add: op_floordiv_def both_int_def)
  have e: "- (10 ^ 400) < (0 :: int)" by simp
  have f: "float_of_int exact_platform (- (10 ^ 400)) = None" by (simp add: exact_platform_def)
  from a b c d e f show ?thesis
    using zero_to_negative_power [where op = FloorDiv and f = op_floordiv and P = exact_platform
        and l = "VInt 1" and r = "VInt 0" and b = "- 1" and z = 0 and y = "- 1" and y' = "- 1"]
      zero_to_negative_power [where P = exact_platform and b = "- (10 ^ 400)" and z = 0]
    by blast
qed

section \<open>Further runs of the entry point\<close>

text \<open>
  Syntax errors of the parser, whitespace around the tokens, the power operator under
  a unary minus and to the right of another power, and the rounding of floor division
  and modulo.
\<close>

lemma syntax_error_examples:
  "evaluate_expression P (ast_parse P) [] = Some (Inl (ValueError SyntaxMsg))"
  "evaluate_expression P (ast_parse P) ''2 +'' = Some (Inl (ValueError SyntaxMsg))"
  "evaluate_expression P (ast_parse P) ''(2 + 3'' = Some (Inl (ValueError SyntaxMsg))"
  "evaluate_expression P (ast_parse P) ''2 3'' = Some (Inl (ValueError SyntaxMsg))"
  by (simp_all add: evaluate_expression_def ast_parse_def prepare_defs lexer_defs)

lemma whitespace_examples:
  "evaluate_expression P (ast_parse P) ''2+3'' = Some (Inr (VInt 5))"
  "evaluate_expression P (ast_parse P) '' 2 + 3 '' = Some (Inr (VInt 5))"
  "evaluate_expression P (ast_parse P) ''-2 ** 2'' = Some (Inr (VInt (- 4)))"
  "evaluate_expression P (ast_parse P) ''2 ** 3 ** 2'' = Some (Inr (VInt 512))"
  "evaluate_expression P (ast_parse P) ''7 // -2'' = Some (Inr (VInt (- 4)))"
  "evaluate_expression P (ast_parse P) ''7 % -2'' = Some (Inr (VInt (- 1)))"
  by (simp_all add: evaluate_expression_def ast_parse_def prepare_defs lexer_defs operator_defs)

end
